theory Spec2Isabelle
  imports Main "HOL-Library.Word"
begin

unbundle bit_operations_syntax

section \<open>Errors\<close>

text \<open>
  Every \<^verbatim>\<open>throw\<close> that \<^verbatim>\<open>src/router.ts\<close> can reach is a value of \<open>error\<close>, tagged by
  its origin: a failed \<^verbatim>\<open>invariant(cond, reason)\<close> of the router itself, a string that
  \<^verbatim>\<open>ethers.BigNumber.from\<close> rejects, and the two collaborators that live outside the
  file (\<^verbatim>\<open>validateAndParseAddress\<close> and \<^verbatim>\<open>trade.maximumAmountIn\<close>), whose errors the
  router lets pass; they carry the collaborator's message.
\<close>

datatype error =
    InvariantFailed string
  | InvalidBigNumber string
  | AddressError string
  | AmountError string

section \<open>Hexadecimal strings and byte buffers\<close>

text \<open>The digit of a value below 16; no other value is ever passed.\<close>

definition digitChar :: "nat \<Rightarrow> char" where
  "digitChar d = ''0123456789abcdef'' ! d"

text \<open>\<^verbatim>\<open>n.toString(16)\<close> for a non-negative integer: minimal lower-case hexadecimal.\<close>

function digits16 :: "int \<Rightarrow> string" where
  "digits16 n =
     (if n < 16 then [digitChar (nat n)]
      else digits16 (n div 16) @ [digitChar (nat (n mod 16))])"
  by pat_completeness auto
termination
  by (relation "measure nat") auto

declare digits16.simps [simp del]

text \<open>\<^verbatim>\<open>toString(16)\<close> on a JS integer or a JSBI value: a negative value prints a minus sign
  and the digits of its magnitude.\<close>

definition toString16 :: "int \<Rightarrow> string" where
  "toString16 i = (if i < 0 then CHR ''-'' # digits16 (- i) else digits16 i)"

definition hexValue :: "char \<Rightarrow> int option" where
  "hexValue c =
     map_of (zip ''0123456789abcdefABCDEF''
                 [0, 1, 2, 3, 4, 5, 6, 7, 8, 9, 10, 11, 12, 13, 14, 15, 10, 11, 12, 13, 14, 15]) c"

definition decValue :: "char \<Rightarrow> int option" where
  "decValue c = map_of (zip ''0123456789'' [0, 1, 2, 3, 4, 5, 6, 7, 8, 9]) c"

fun digitsToInt :: "int \<Rightarrow> (char \<Rightarrow> int option) \<Rightarrow> int \<Rightarrow> string \<Rightarrow> int option" where
  "digitsToInt base val acc [] = Some acc"
| "digitsToInt base val acc (c # cs) =
     (case val c of
        None \<Rightarrow> None
      | Some d \<Rightarrow> digitsToInt base val (base * acc + d) cs)"

text \<open>
  \<^verbatim>\<open>parseInt(s, 16)\<close> on the strings \<^verbatim>\<open>getBEFB\<close> passes to it: the longest prefix of
  hexadecimal digits is read, and a string without one gives \<^verbatim>\<open>NaN\<close> (\<open>None\<close>).
\<close>

definition parseInt16 :: "string \<Rightarrow> int option" where
  "parseInt16 s =
     (let ds = takeWhile (\<lambda>c. hexValue c \<noteq> None) s
      in if ds = [] then None else digitsToInt 16 hexValue 0 ds)"

text \<open>
  \<^verbatim>\<open>ethers.BigNumber.from(s)\<close> for a string: an optional minus sign followed by either
  decimal digits or \<^verbatim>\<open>0x\<close> and hexadecimal digits of either case; anything else throws.
  (The library's pattern also lets an upper-case \<^verbatim>\<open>0X\<close> through and then mishandles it;
  here such a string throws.)
\<close>

definition bigNumberFrom :: "string \<Rightarrow> error + int" where
  "bigNumberFrom s =
     (let neg = (take 1 s = ''-'');
          body = (if neg then drop 1 s else s);
          sgn = (\<lambda>n. if neg then - n else n)
      in if body \<noteq> [] \<and> list_all (\<lambda>c. decValue c \<noteq> None) body then
           (case digitsToInt 10 decValue 0 body of
              Some n \<Rightarrow> Inr (sgn n)
            | None \<Rightarrow> Inl (InvalidBigNumber s))
         else if take 2 body = ''0x'' \<and> drop 2 body \<noteq> [] then
           (case digitsToInt 16 hexValue 0 (drop 2 body) of
              Some n \<Rightarrow> Inr (sgn n)
            | None \<Rightarrow> Inl (InvalidBigNumber s))
         else Inl (InvalidBigNumber s))"

text \<open>
  \<^verbatim>\<open>BigNumber.toHexString()\<close>: \<^verbatim>\<open>0x\<close> and the shortest even number of hexadecimal
  digits (zero is \<^verbatim>\<open>0x00\<close>), with the sign in front.
\<close>

definition toHexString :: "int \<Rightarrow> string" where
  "toHexString v =
     (let h = digits16 \<bar>v\<bar>;
          h' = (if odd (length h) then CHR ''0'' # h else h)
      in (if v < 0 then ''-0x'' else ''0x'') @ h')"

text \<open>
  \<^verbatim>\<open>Buffer.from(s, 'hex')\<close> of Node.js: two digits make a byte; decoding stops at the
  first pair that is not two hexadecimal digits, and a single trailing character is
  dropped.
\<close>

fun bufferFromHex :: "string \<Rightarrow> 8 word list" where
  "bufferFromHex (a # b # rest) =
     (case (hexValue a, hexValue b) of
        (Some x, Some y) \<Rightarrow> of_int (16 * x + y) # bufferFromHex rest
      | _ \<Rightarrow> [])"
| "bufferFromHex _ = []"

text \<open>\<^verbatim>\<open>buf.toString('hex')\<close>: two lower-case digits per byte.\<close>

definition bufferToHex :: "8 word list \<Rightarrow> string" where
  "bufferToHex buf =
     concat (map (\<lambda>b. [digitChar (unat b div 16), digitChar (unat b mod 16)]) buf)"

section \<open>resolveChallenge\<close>

text \<open>The local helpers of \<^verbatim>\<open>resolveChallenge\<close>, in the order of the source.\<close>

definition pad :: "string \<Rightarrow> nat \<Rightarrow> string" where
  "pad hex count = replicate (count - length hex) CHR ''0'' @ hex"

definition getBEFB :: "string \<Rightarrow> int option" where
  "getBEFB ckashHex =
     (let padded = pad ckashHex 40
      in parseInt16 (drop (length padded - 2) padded))"

definition GOAL :: int where
  "GOAL = 69"

text \<open>
  The random source is the sequence of values \<^verbatim>\<open>Math.floor(Math.random() * 16)\<close> takes,
  one nibble per call; \<open>pos\<close> counts the calls made so far. \<^verbatim>\<open>genRanHex\<close> makes \<open>sz\<close>
  calls and returns the digits with the new position.
\<close>

type_synonym random = "nat \<Rightarrow> 4 word"

definition genRanHex :: "random \<Rightarrow> nat \<Rightarrow> nat \<Rightarrow> string \<times> nat" where
  "genRanHex rnd pos sz =
     (concat (map (\<lambda>idx. digits16 (uint (rnd (pos + idx)))) [0 ..< sz]), pos + sz)"

text \<open>
  \<^verbatim>\<open>xor\<close>: both strings lose their first two characters and are decoded; the bytes of the
  first buffer are combined with the bytes of the second at the same index, and an index
  beyond the second buffer reads \<^verbatim>\<open>undefined\<close>, which \<^verbatim>\<open>^\<close> treats as 0.
\<close>

definition xor_hex :: "string \<Rightarrow> string \<Rightarrow> string" where
  "xor_hex hex1 hex2 =
     (let buf1 = bufferFromHex (drop 2 hex1);
          buf2 = bufferFromHex (drop 2 hex2);
          bufResult = map (\<lambda>i. (buf1 ! i) XOR (if i < length buf2 then buf2 ! i else 0))
                          [0 ..< length buf1]
      in bufferToHex bufResult)"

definition limits :: "int \<Rightarrow> int \<times> int" where
  "limits signer =
     (if signer mod 2 = 0 then (signer + 1, 0xffffffffffffffffffffffffffffffffffffffff)
      else (0, signer - 1))"

definition betweenLimits :: "int \<times> int \<Rightarrow> int \<Rightarrow> bool" where
  "betweenLimits lim challengeKey = (fst lim \<le> challengeKey \<and> challengeKey \<le> snd lim)"

definition resolved :: "string \<Rightarrow> int \<times> int \<Rightarrow> int \<Rightarrow> bool" where
  "resolved signerAddress lim challengeKey =
     (if \<not> betweenLimits lim challengeKey then False
      else
        (let ckasHex = toHexString challengeKey;
             padded = pad ckasHex 40;
             xorred = xor_hex signerAddress padded;
             firstByte = getBEFB xorred
         in firstByte = Some GOAL))"

text \<open>
  One draw of a candidate: \<^verbatim>\<open>ethers.BigNumber.from('0x' + genRanHex(40))\<close>.
\<close>

definition drawKey :: "random \<Rightarrow> nat \<Rightarrow> (error + int) \<times> nat" where
  "drawKey rnd pos =
     (let (hex, pos') = genRanHex rnd pos 40 in (bigNumberFrom (''0x'' @ hex), pos'))"

text \<open>
  The \<^verbatim>\<open>while (!resolved(challengeKey))\<close> loop has no bound, so it is a partial function:
  \<open>None\<close> is a run that never leaves the loop.
\<close>

partial_function (option) resolveLoop ::
  "random \<Rightarrow> string \<Rightarrow> int \<times> int \<Rightarrow> int \<Rightarrow> nat \<Rightarrow> ((error + int) \<times> nat) option" where
  "resolveLoop rnd signerAddress lim challengeKey pos =
     (if resolved signerAddress lim challengeKey then Some (Inr challengeKey, pos)
      else
        (case drawKey rnd pos of
           (Inl e, pos') \<Rightarrow> Some (Inl e, pos')
         | (Inr challengeKey', pos') \<Rightarrow> resolveLoop rnd signerAddress lim challengeKey' pos'))"

declare resolveLoop.simps [code]

definition resolveChallenge ::
  "random \<Rightarrow> nat \<Rightarrow> string \<Rightarrow> ((error + int) \<times> nat) option" where
  "resolveChallenge rnd pos signerAddress =
     (case bigNumberFrom signerAddress of
        Inl e \<Rightarrow> Some (Inl e, pos)
      | Inr signer \<Rightarrow>
          (let lim = limits signer
           in case drawKey rnd pos of
                (Inl e, pos') \<Rightarrow> Some (Inl e, pos')
              | (Inr challengeKey, pos') \<Rightarrow> resolveLoop rnd signerAddress lim challengeKey pos'))"

section \<open>Router.swapCallParameters\<close>

datatype TradeType = EXACT_INPUT | EXACT_OUTPUT

text \<open>
  The entities of \<^verbatim>\<open>./entities\<close> as far as the router reads them. A \<^verbatim>\<open>Percent\<close> is a
  fraction (numerator, denominator). \<open>inputIsETHER\<close> and \<open>outputIsETHER\<close> are the two
  comparisons \<^verbatim>\<open>trade.inputAmount.currency === ETHER\<close> and
  \<^verbatim>\<open>trade.outputAmount.currency === ETHER\<close>. \<open>maximumAmountIn\<close> is the trade's method of
  that name, returning the raw amount or throwing (\<open>Inl\<close> with its message).
\<close>

type_synonym Percent = "int \<times> int"

record Token =
  address :: string

record Trade =
  tradeType :: TradeType
  inputIsETHER :: bool
  outputIsETHER :: bool
  maximumAmountIn :: "Percent \<Rightarrow> string + int"
  routePath :: "Token list"

text \<open>
  \<^verbatim>\<open>TradeOptions | TradeOptionsDeadline\<close>: the two interfaces differ in carrying \<^verbatim>\<open>ttl\<close> or
  \<^verbatim>\<open>deadline\<close>, which \<open>Expiry\<close> records; \<^verbatim>\<open>'ttl' in options\<close> is the test for \<open>Ttl\<close>.
  Both are numbers of whole seconds. The optional \<^verbatim>\<open>feeOnTransfer\<close> is \<open>None\<close> when
  absent.
\<close>

datatype Expiry = Ttl int | Deadline int

record TradeOptions =
  allowedSlippage :: Percent
  expiry :: Expiry
  recipient :: string
  feeOnTransfer :: "bool option"

text \<open>An element of \<^verbatim>\<open>args\<close> is a string or a list of strings.\<close>

datatype arg = Scalar string | AddressList "string list"

record SwapParameters =
  methodName :: string
  args :: "arg list"
  "value" :: string

text \<open>
  A JavaScript number is an IEEE double. The model covers the whole-number values of
  \<^verbatim>\<open>ttl\<close>, \<^verbatim>\<open>deadline\<close> and the clock, each written as the integer it is; fractional,
  infinite and NaN values are outside it. Such a value prints with \<open>toString16\<close>, digit
  for digit. A sum of two of them is the exact sum rounded to the nearest double, ties
  to the even mantissa: \<open>scaleOf m 0\<close> is the number of low bits a magnitude \<open>m\<close> loses
  to fit 53 bits, and \<open>roundToDouble\<close> rounds at that bit. (A sum of the clock's seconds
  and a finite \<^verbatim>\<open>ttl\<close> never reaches the overflow threshold.)
\<close>

function scaleOf :: "int \<Rightarrow> nat \<Rightarrow> nat" where
  "scaleOf m e = (if m div 2 ^ e < 2 ^ 53 then e else scaleOf m (Suc e))"
  by pat_completeness auto
termination
proof (relation "measure (\<lambda>(m, e). nat (m div 2 ^ e))")
  show "wf (measure (\<lambda>(m, e). nat (m div 2 ^ e)))" by simp
next
  fix m :: int and e :: nat
  assume "\<not> m div 2 ^ e < 2 ^ 53"
  then have big: "(2::int) ^ 53 \<le> m div 2 ^ e" by simp
  define k where "k = m div 2 ^ e"
  have "m div (2 ^ e * 2) = m div 2 ^ e div 2" by (rule zdiv_zmult2_eq) simp
  then have step: "m div 2 ^ Suc e = k div 2" by (simp add: mult.commute k_def)
  have "(0::int) < 2 ^ 53" by simp
  from this big have pos: "0 < k" unfolding k_def by (rule less_le_trans)
  then have "k div 2 < k" by linarith
  with pos have "nat (k div 2) < nat k" by linarith
  then show "((m, Suc e), (m, e)) \<in> measure (\<lambda>(m, e). nat (m div 2 ^ e))"
    by (simp add: step k_def del: power_Suc)
qed

declare scaleOf.simps [simp del]

definition roundToDouble :: "int \<Rightarrow> int" where
  "roundToDouble x =
     (let m = \<bar>x\<bar>;
          e = scaleOf m 0;
          q = m div 2 ^ e;
          r = m mod 2 ^ e;
          q' = (if 2 ^ e < 2 * r \<or> (2 * r = 2 ^ e \<and> odd q) then q + 1 else q)
      in sgn x * (q' * 2 ^ e))"

text \<open>\<^verbatim>\<open>a + b\<close> on two whole-number doubles.\<close>

definition jsAdd :: "int \<Rightarrow> int \<Rightarrow> int" where
  "jsAdd a b = roundToDouble (a + b)"

definition toHex :: "int \<Rightarrow> string" where
  "toHex raw = ''0x'' @ toString16 raw"

definition ZERO_HEX :: string where
  "ZERO_HEX = ''0x0''"

text \<open>\<^verbatim>\<open>Boolean(x)\<close> on an optional boolean: \<^verbatim>\<open>undefined\<close> is falsy.\<close>

definition Boolean :: "bool option \<Rightarrow> bool" where
  "Boolean b = (case b of None \<Rightarrow> False | Some v \<Rightarrow> v)"

text \<open>
  \<open>swapCallParameters\<close> takes what the source reads from its environment as arguments:
  the collaborator \<^verbatim>\<open>validateAndParseAddress\<close> (the checked address, or \<open>Inl\<close> with the
  message it throws), the random source with the number of draws made so far, and the
  clock \<open>now\<close>, the milliseconds \<^verbatim>\<open>new Date().getTime()\<close> returns (a time value, at
  most 8.64e15 in magnitude, for which \<^verbatim>\<open>Math.floor(now / 1000)\<close> in doubles is the
  integer quotient). The result is \<open>None\<close>
  when the call never returns; otherwise it is the thrown error or the returned
  parameters, with the position the random source has reached.
\<close>

definition swapCallParameters ::
  "(string \<Rightarrow> string + string) \<Rightarrow> random \<Rightarrow> nat \<Rightarrow> int \<Rightarrow>
   Trade \<Rightarrow> TradeOptions \<Rightarrow> string \<Rightarrow> ((error + SwapParameters) \<times> nat) option" where
  "swapCallParameters validateAndParseAddress rnd pos now trade options caller =
     (case resolveChallenge rnd pos caller of
        None \<Rightarrow> None
      | Some (Inl e, pos') \<Rightarrow> Some (Inl e, pos')
      | Some (Inr challengeKey, pos') \<Rightarrow>
          Some
           (let etherIn = inputIsETHER trade;
                etherOut = outputIsETHER trade
            in if etherIn \<and> etherOut then Inl (InvariantFailed ''ETHER_IN_OUT'')
               else if \<not> (case expiry options of Ttl ttl \<Rightarrow> 0 < ttl | Deadline d \<Rightarrow> True)
               then Inl (InvariantFailed ''TTL'')
               else
                 (case validateAndParseAddress (recipient options) of
                    Inl msg \<Rightarrow> Inl (AddressError msg)
                  | Inr to \<Rightarrow>
                 (case maximumAmountIn trade (allowedSlippage options) of
                    Inl msg \<Rightarrow> Inl (AmountError msg)
                  | Inr raw \<Rightarrow>
                 (let amountIn = toHex raw;
                      amountOut = ''0x0'';
                      path = map address (routePath trade);
                      deadline =
                        (case expiry options of
                           Ttl ttl \<Rightarrow> ''0x'' @ toString16 (jsAdd (now div 1000) ttl)
                         | Deadline d \<Rightarrow> ''0x'' @ toString16 d);
                      useFeeOnTransfer = Boolean (feeOnTransfer options)
                  in case tradeType trade of
                       EXACT_INPUT \<Rightarrow>
                         if etherIn then
                           Inr \<lparr>methodName =
                                  (if useFeeOnTransfer
                                   then ''swapExactETHForTokensSupportingFeeOnTransferTokens''
                                   else ''swapExactETHForTokens''),
                                args = [Scalar amountOut, AddressList path, Scalar to,
                                        Scalar deadline, Scalar (toHexString challengeKey)],
                                value = amountIn\<rparr>
                         else if etherOut then
                           Inr \<lparr>methodName =
                                  (if useFeeOnTransfer
                                   then ''swapExactTokensForETHSupportingFeeOnTransferTokens''
                                   else ''swapExactTokensForETH''),
                                args = [Scalar amountIn, Scalar amountOut, AddressList path,
                                        Scalar to, Scalar deadline,
                                        Scalar (toHexString challengeKey)],
                                value = ZERO_HEX\<rparr>
                         else
                           Inr \<lparr>methodName =
                                  (if useFeeOnTransfer
                                   then ''swapExactTokensForTokensSupportingFeeOnTransferTokens''
                                   else ''swapExactTokensForTokens''),
                                args = [Scalar amountIn, Scalar amountOut, AddressList path,
                                        Scalar to, Scalar deadline,
                                        Scalar (toHexString challengeKey)],
                                value = ZERO_HEX\<rparr>
                     | EXACT_OUTPUT \<Rightarrow>
                         if useFeeOnTransfer then Inl (InvariantFailed ''EXACT_OUT_FOT'')
                         else if etherIn then
                           Inr \<lparr>methodName = ''swapETHForExactTokens'',
                                args = [Scalar amountOut, AddressList path, Scalar to,
                                        Scalar deadline, Scalar (toHexString challengeKey)],
                                value = amountIn\<rparr>
                         else if etherOut then
                           Inr \<lparr>methodName = ''swapTokensForExactETH'',
                                args = [Scalar amountOut, Scalar amountIn, AddressList path,
                                        Scalar to, Scalar deadline,
                                        Scalar (toHexString challengeKey)],
                                value = ZERO_HEX\<rparr>
                         else
                           Inr \<lparr>methodName = ''swapTokensForExactTokens'',
                                args = [Scalar amountOut, Scalar amountIn, AddressList path,
                                        Scalar to, Scalar deadline,
                                        Scalar (toHexString challengeKey)],
                                value = ZERO_HEX\<rparr>))),
            pos'))"

text \<open>The string the source binds to \<^verbatim>\<open>deadline\<close>, on its own.\<close>

definition deadlineArg :: "int \<Rightarrow> Expiry \<Rightarrow> string" where
  "deadlineArg now e =
     (case e of
        Ttl ttl \<Rightarrow> ''0x'' @ toString16 (jsAdd (now div 1000) ttl)
      | Deadline d \<Rightarrow> ''0x'' @ toString16 d)"

section \<open>The specification's vocabulary\<close>

text \<open>
  The definitions of this section follow the words of the specification, so that the
  code can be compared with them.

  A caller is an address: \<^verbatim>\<open>0x\<close> and forty hexadecimal digits, a 160-bit value.
\<close>

definition isAddress :: "string \<Rightarrow> bool" where
  "isAddress s =
     (length s = 42 \<and> take 2 s = ''0x'' \<and> list_all (\<lambda>c. hexValue c \<noteq> None) (drop 2 s))"

text \<open>
  The admissible range of the specification (4.1, step 1): above an even signer up to
  \<open>2 ^ 160 - 1\<close>, below an odd one down to 0.
\<close>

definition specAdmissible :: "int \<Rightarrow> int \<Rightarrow> bool" where
  "specAdmissible signer key =
     (if even signer then signer + 1 \<le> key \<and> key \<le> 2 ^ 160 - 1
      else 0 \<le> key \<and> key \<le> signer - 1)"

text \<open>
  The byte of the specification (4.1, step 2b): the signer and the key written with forty
  hexadecimal digits, zero-padded, are two byte strings of the same length; the last
  byte of their bytewise XOR.
\<close>

definition specLastByte :: "string \<Rightarrow> int \<Rightarrow> int" where
  "specLastByte signerAddress key =
     (let signerBytes = bufferFromHex (drop 2 signerAddress);
          keyBytes = bufferFromHex (pad (digits16 key) 40)
      in uint (last (map (\<lambda>(a, b). a XOR b) (zip signerBytes keyBytes))))"

text \<open>
  The hex-encoded scalar of the glossary: an unsigned integer as \<^verbatim>\<open>0x\<close> and its base-16
  digits, the most significant first, with no more digits than the value needs. It is
  defined on its own, apart from the encoders of the source.
\<close>

definition hexDigitOf :: "int \<Rightarrow> char" where
  "hexDigitOf d =
     (if d = 0 then CHR ''0'' else if d = 1 then CHR ''1'' else if d = 2 then CHR ''2''
      else if d = 3 then CHR ''3'' else if d = 4 then CHR ''4'' else if d = 5 then CHR ''5''
      else if d = 6 then CHR ''6'' else if d = 7 then CHR ''7'' else if d = 8 then CHR ''8''
      else if d = 9 then CHR ''9'' else if d = 10 then CHR ''a'' else if d = 11 then CHR ''b''
      else if d = 12 then CHR ''c'' else if d = 13 then CHR ''d'' else if d = 14 then CHR ''e''
      else CHR ''f'')"

function hexDigitsAcc :: "int \<Rightarrow> string \<Rightarrow> string" where
  "hexDigitsAcc n acc =
     (if n < 16 then hexDigitOf n # acc
      else hexDigitsAcc (n div 16) (hexDigitOf (n mod 16) # acc))"
  by pat_completeness auto
termination
  by (relation "measure (\<lambda>(n, acc). nat n)") auto

declare hexDigitsAcc.simps [simp del]

definition hexScalar :: "int \<Rightarrow> string" where
  "hexScalar n = ''0x'' @ hexDigitsAcc n []"

text \<open>
  A whole number that a JavaScript number can hold: rounding leaves it as it is.
\<close>

definition isDouble :: "int \<Rightarrow> bool" where
  "isDouble x = (roundToDouble x = x \<and> \<bar>x\<bar> < 2 ^ 1024)"

text \<open>
  Fee-on-transfer handling is requested when the option is present and true.
\<close>

definition feeRequested :: "TradeOptions \<Rightarrow> bool" where
  "feeRequested options = (feeOnTransfer options = Some True)"

text \<open>
  The decision table of the specification (4.2). A row gives the method, the arguments
  before the trailing challenge key, and the native value sent. The method names are the
  identifiers of the router's ABI as the source spells them; the table of the
  specification paraphrases them (\<^verbatim>\<open>swap-exact-native-for-tokens\<close> is
  \<^verbatim>\<open>swapExactETHForTokens\<close>, and so on, row by row).
\<close>

datatype slot = MinOut | AmountIn | AmountOut | AmountInMax | Path | To | DeadlineArg

datatype nativeValue = SendAmountIn | SendZero

fun decisionTable ::
  "TradeType \<Rightarrow> bool \<Rightarrow> bool \<Rightarrow> bool \<Rightarrow> (string \<times> slot list \<times> nativeValue) option" where
  "decisionTable EXACT_INPUT True False False =
     Some (''swapExactETHForTokens'', [MinOut, Path, To, DeadlineArg], SendAmountIn)"
| "decisionTable EXACT_INPUT True False True =
     Some (''swapExactETHForTokensSupportingFeeOnTransferTokens'',
           [MinOut, Path, To, DeadlineArg], SendAmountIn)"
| "decisionTable EXACT_INPUT False True False =
     Some (''swapExactTokensForETH'', [AmountIn, MinOut, Path, To, DeadlineArg], SendZero)"
| "decisionTable EXACT_INPUT False True True =
     Some (''swapExactTokensForETHSupportingFeeOnTransferTokens'',
           [AmountIn, MinOut, Path, To, DeadlineArg], SendZero)"
| "decisionTable EXACT_INPUT False False False =
     Some (''swapExactTokensForTokens'', [AmountIn, MinOut, Path, To, DeadlineArg], SendZero)"
| "decisionTable EXACT_INPUT False False True =
     Some (''swapExactTokensForTokensSupportingFeeOnTransferTokens'',
           [AmountIn, MinOut, Path, To, DeadlineArg], SendZero)"
| "decisionTable EXACT_OUTPUT True False fee =
     Some (''swapETHForExactTokens'', [AmountOut, Path, To, DeadlineArg], SendAmountIn)"
| "decisionTable EXACT_OUTPUT False True fee =
     Some (''swapTokensForExactETH'', [AmountOut, AmountInMax, Path, To, DeadlineArg], SendZero)"
| "decisionTable EXACT_OUTPUT False False fee =
     Some (''swapTokensForExactTokens'', [AmountOut, AmountInMax, Path, To, DeadlineArg],
           SendZero)"
| "decisionTable dir etherIn etherOut fee = None"

text \<open>
  What fills a slot: the encoded maximum input for \<open>AmountIn\<close> and \<open>AmountInMax\<close>, the
  zero scalar for \<open>MinOut\<close> and \<open>AmountOut\<close> (specification 4.2, step 4), and the encoded
  path, recipient and deadline.
\<close>

fun encodeSlot :: "string \<Rightarrow> string list \<Rightarrow> string \<Rightarrow> string \<Rightarrow> slot \<Rightarrow> arg" where
  "encodeSlot amountIn path to deadline MinOut = Scalar ''0x0''"
| "encodeSlot amountIn path to deadline AmountOut = Scalar ''0x0''"
| "encodeSlot amountIn path to deadline AmountIn = Scalar amountIn"
| "encodeSlot amountIn path to deadline AmountInMax = Scalar amountIn"
| "encodeSlot amountIn path to deadline Path = AddressList path"
| "encodeSlot amountIn path to deadline To = Scalar to"
| "encodeSlot amountIn path to deadline DeadlineArg = Scalar deadline"

definition tableCall ::
  "TradeType \<Rightarrow> bool \<Rightarrow> bool \<Rightarrow> bool \<Rightarrow> string \<Rightarrow> string list \<Rightarrow> string \<Rightarrow> string \<Rightarrow> string \<Rightarrow>
   SwapParameters option" where
  "tableCall dir etherIn etherOut fee amountIn path to deadline key =
     (case decisionTable dir etherIn etherOut fee of
        None \<Rightarrow> None
      | Some (name, slots, native) \<Rightarrow>
          Some \<lparr>methodName = name,
                args = map (encodeSlot amountIn path to deadline) slots @ [Scalar key],
                value = (case native of SendAmountIn \<Rightarrow> amountIn | SendZero \<Rightarrow> ''0x0'')\<rparr>)"

text \<open>
  The position of the argument that the source fills from its variable \<^verbatim>\<open>amountOut\<close>,
  read off the signatures the source quotes: first for \<^verbatim>\<open>(uint amountOutMin, ...)\<close> and
  \<^verbatim>\<open>(uint amountOut, ...)\<close>, second for \<^verbatim>\<open>(uint amountIn, uint amountOutMin, ...)\<close>.
\<close>

definition amountOutIndex :: "Trade \<Rightarrow> nat" where
  "amountOutIndex trade =
     (if tradeType trade = EXACT_INPUT \<and> \<not> inputIsETHER trade then 1 else 0)"

text \<open>The three invariants, as conditions on the input.\<close>

definition bothNative :: "Trade \<Rightarrow> bool" where
  "bothNative trade = (inputIsETHER trade \<and> outputIsETHER trade)"

definition ttlNotPositive :: "TradeOptions \<Rightarrow> bool" where
  "ttlNotPositive options = (case expiry options of Ttl ttl \<Rightarrow> ttl \<le> 0 | Deadline d \<Rightarrow> False)"

definition exactOutWithFee :: "Trade \<Rightarrow> TradeOptions \<Rightarrow> bool" where
  "exactOutWithFee trade options =
     (tradeType trade = EXACT_OUTPUT \<and> Boolean (feeOnTransfer options))"

text \<open>A call fails with an invariant's reason.\<close>

definition failsWith :: "((error + SwapParameters) \<times> nat) option \<Rightarrow> string \<Rightarrow> bool" where
  "failsWith r reason =
     (case r of
        Some (Inl (InvariantFailed m), p) \<Rightarrow> m = reason
      | _ \<Rightarrow> False)"

definition returnsCall :: "((error + SwapParameters) \<times> nat) option \<Rightarrow> bool" where
  "returnsCall r = (case r of Some (Inr sp, p) \<Rightarrow> True | _ \<Rightarrow> False)"

section \<open>Sample inputs\<close>

text \<open>
  A random source that repeats the same forty nibbles, so that every draw is the same
  candidate.
\<close>

definition repeatDraw :: "4 word list \<Rightarrow> random" where
  "repeatDraw nibbles = (\<lambda>i. nibbles ! (i mod 40))"

text \<open>The candidates \<^verbatim>\<open>0x10...0047\<close>, \<^verbatim>\<open>0x10...0046\<close> and \<^verbatim>\<open>0x00aa...aa\<close>.\<close>

definition draw1047 :: random where
  "draw1047 = repeatDraw ([1] @ replicate 37 0 @ [4, 7])"

definition draw1046 :: random where
  "draw1046 = repeatDraw ([1] @ replicate 37 0 @ [4, 6])"

definition draw00aa :: random where
  "draw00aa = repeatDraw ([0, 0] @ replicate 38 10)"

definition key1047 :: int where
  "key1047 = 0x1000000000000000000000000000000000000047"

definition key1046 :: int where
  "key1046 = 0x1000000000000000000000000000000000000046"

definition key00aa :: int where
  "key00aa = 0x00aaaaaaaaaaaaaaaaaaaaaaaaaaaaaaaaaaaaaa"

definition callerEven :: string where
  "callerEven = ''0x0000000000000000000000000000000000000002''"

definition callerOdd :: string where
  "callerOdd = ''0xf000000000000000000000000000000000000003''"

definition callerEnds45 :: string where
  "callerEnds45 = ''0x71c7656ec7ab88b098defb751b7401b5f6d89745''"

definition callerLeadingZero :: string where
  "callerLeadingZero = ''0x00d5b2e8a9945ae3b3fb1c2568a5b1e5f4a0b127''"

definition key00aa62 :: int where
  "key00aa62 = 0x00aaaaaaaaaaaaaaaaaaaaaaaaaaaaaaaaaaaa62"

definition sampleValidate :: "string \<Rightarrow> string + string" where
  "sampleValidate s = (if isAddress s then Inr s else Inl (s @ '' is not a valid address.''))"

definition rejectAll :: "string \<Rightarrow> string + string" where
  "rejectAll s = Inl (s @ '' is not a valid address.'')"

definition sampleNow :: int where
  "sampleNow = 1700000000000"

definition sampleTrade :: Trade where
  "sampleTrade =
     \<lparr>tradeType = EXACT_INPUT, inputIsETHER = False, outputIsETHER = False,
      maximumAmountIn = (\<lambda>slippage. Inr 100),
      routePath = [\<lparr>address = ''0x1f9840a85d5af5bf1d1762f925bdaddc4201f984''\<rparr>,
                   \<lparr>address = ''0x6b175474e89094c44da98b954eedeac495271d0f''\<rparr>]\<rparr>"

definition bothNativeTrade :: Trade where
  "bothNativeTrade = sampleTrade\<lparr>inputIsETHER := True, outputIsETHER := True\<rparr>"

definition sampleOptions :: TradeOptions where
  "sampleOptions =
     \<lparr>allowedSlippage = (1, 100), expiry = Ttl 1200,
      recipient = ''0x52908400098527886e0f7030069857d2e4169ee7'',
      feeOnTransfer = None\<rparr>"

definition deadlineZeroOptions :: TradeOptions where
  "deadlineZeroOptions = sampleOptions\<lparr>expiry := Deadline 0\<rparr>"

definition ttlZeroOptions :: TradeOptions where
  "ttlZeroOptions = sampleOptions\<lparr>expiry := Ttl 0\<rparr>"

definition exactOutFeeTrade :: Trade where
  "exactOutFeeTrade = sampleTrade\<lparr>tradeType := EXACT_OUTPUT\<rparr>"

definition feeOptions :: TradeOptions where
  "feeOptions = sampleOptions\<lparr>feeOnTransfer := Some True\<rparr>"

text \<open>
  A random source that only ever yields the nibble 0, a clock one second later, a
  time-to-live of \<open>2 ^ 53\<close> seconds, and a trade and options for each row of the decision
  table.
\<close>

definition drawZero :: random where
  "drawZero = (\<lambda>i. 0)"

definition lateNow :: int where
  "lateNow = 1700000001000"

definition hugeTtlOptions :: TradeOptions where
  "hugeTtlOptions = sampleOptions\<lparr>expiry := Ttl 9007199254740992\<rparr>"

definition rowTrade :: "TradeType \<Rightarrow> bool \<Rightarrow> bool \<Rightarrow> int \<Rightarrow> Trade" where
  "rowTrade dir etherIn etherOut amount =
     sampleTrade\<lparr>tradeType := dir, inputIsETHER := etherIn, outputIsETHER := etherOut,
                  maximumAmountIn := (\<lambda>slippage. Inr amount)\<rparr>"

definition rowOptions :: "bool option \<Rightarrow> TradeOptions" where
  "rowOptions fee = sampleOptions\<lparr>feeOnTransfer := fee\<rparr>"

section \<open>Facts about the helpers\<close>

lemma digitChar_hexValue: "0 \<le> d \<Longrightarrow> d < 16 \<Longrightarrow> hexValue (digitChar (nat d)) = Some d"
proof -
  assume "0 \<le> d" "d < 16"
  then have "d \<in> {0,1,2,3,4,5,6,7,8,9,10,11,12,13,14,15}" by simp presburger
  then show ?thesis unfolding hexValue_def digitChar_def by (elim insertE emptyE) simp_all
qed

lemma hexValue_nonneg: "hexValue c = Some d \<Longrightarrow> 0 \<le> d"
  by (auto simp: hexValue_def split: if_splits)

lemma decValue_x: "decValue CHR ''x'' = None"
  by (simp add: decValue_def)

lemma length_digits16: "0 \<le> n \<Longrightarrow> n < 16 ^ k \<Longrightarrow> 0 < k \<Longrightarrow> length (digits16 n) \<le> k"
proof (induction n arbitrary: k rule: digits16.induct)
  case (1 n)
  show ?case
  proof (cases "n < 16")
    case True
    then show ?thesis using "1.prems" by (subst digits16.simps) simp
  next
    case False
    then obtain j where k: "k = Suc j" using "1.prems" by (cases k) auto
    from False "1.prems" k have "0 < j" by (cases j) auto
    moreover have "n < 16 * 16 ^ j" using "1.prems" k by simp
    then have "n div 16 < 16 ^ j" by linarith
    ultimately have "length (digits16 (n div 16)) \<le> j"
      using "1.IH"[OF False, of j] "1.prems" by simp
    then show ?thesis using False k by (subst digits16.simps) simp
  qed
qed

lemma length_bufferFromHex: "length (bufferFromHex s) \<le> length s div 2"
  by (induction s rule: bufferFromHex.induct) (auto split: option.splits)

lemma digitsToInt_hex:
  "list_all (\<lambda>c. hexValue c \<noteq> None) cs \<Longrightarrow> 0 \<le> acc \<Longrightarrow>
   \<exists>n. digitsToInt 16 hexValue acc cs = Some n \<and> 0 \<le> n"
proof (induction cs arbitrary: acc)
  case Nil
  then show ?case by simp
next
  case (Cons c cs)
  then obtain d where d: "hexValue c = Some d" by auto
  then have "0 \<le> 16 * acc + d" using Cons.prems hexValue_nonneg[OF d] by simp
  from Cons.IH[OF _ this] Cons.prems d show ?case by simp
qed

lemma genRanHex_digits:
  "fst (genRanHex rnd pos sz) = map (\<lambda>idx. digitChar (nat (uint (rnd (pos + idx))))) [0 ..< sz]"
proof -
  have "digits16 (uint w) = [digitChar (nat (uint w))]" for w :: "4 word"
  proof -
    have "uint w < 2 ^ LENGTH(4)" by (rule uint_lt2p)
    then show ?thesis by (subst digits16.simps) simp
  qed
  then show ?thesis by (simp add: genRanHex_def concat_map_singleton)
qed


lemma drawKey_returns:
  "\<exists>ck. drawKey rnd pos = (Inr ck, pos + 40) \<and> 0 \<le> ck"
proof -
  define hex where "hex = fst (genRanHex rnd pos 40)"
  have hex: "hex = map (\<lambda>idx. digitChar (nat (uint (rnd (pos + idx))))) [0 ..< 40]"
    unfolding hex_def by (rule genRanHex_digits)
  have all: "list_all (\<lambda>c. hexValue c \<noteq> None) hex"
  proof -
    have "hexValue (digitChar (nat (uint w))) \<noteq> None" for w :: "4 word"
    proof -
      have "uint w < 2 ^ LENGTH(4)" by (rule uint_lt2p)
      then show ?thesis using digitChar_hexValue[of "uint w"] by simp
    qed
    then show ?thesis by (simp add: hex list_all_iff)
  qed
  have ne: "hex \<noteq> []" by (simp add: hex)
  obtain n where n: "digitsToInt 16 hexValue 0 hex = Some n" "0 \<le> n"
    using digitsToInt_hex[OF all, of 0] by auto
  have "bigNumberFrom (''0x'' @ hex) = Inr n"
    using n ne by (simp add: bigNumberFrom_def decValue_x)
  moreover have "genRanHex rnd pos 40 = (hex, pos + 40)"
    by (simp add: hex_def genRanHex_def)
  ultimately show ?thesis using n by (simp add: drawKey_def)
qed

lemma length_bufferToHex: "length (bufferToHex buf) = 2 * length buf"
  by (induction buf) (simp_all add: bufferToHex_def)

lemma bufferToHex_snoc:
  "bufferToHex (buf @ [b]) = bufferToHex buf @ [digitChar (unat b div 16), digitChar (unat b mod 16)]"
  by (simp add: bufferToHex_def)

lemma parseInt16_byte:
  "parseInt16 [digitChar (unat b div 16), digitChar (unat b mod 16)] = Some (uint b)"
  for b :: "8 word"
proof -
  have "unat b < 2 ^ LENGTH(8)" by (rule unsigned_less)
  then have lt: "unat b < 256" by simp
  have hi: "hexValue (digitChar (unat b div 16)) = Some (int (unat b div 16))"
    using digitChar_hexValue[of "int (unat b div 16)"] lt by simp
  have lo: "hexValue (digitChar (unat b mod 16)) = Some (int (unat b mod 16))"
    using digitChar_hexValue[of "int (unat b mod 16)"] by simp
  have "16 * int (unat b div 16) + int (unat b mod 16) = int (unat b)"
    by (simp add: zdiv_int zmod_int)
  then show ?thesis by (simp add: parseInt16_def hi lo)
qed

lemma getBEFB_xor_short:
  assumes len1: "length (bufferFromHex (drop 2 hex1)) = 20"
      and len2: "length (bufferFromHex (drop 2 hex2)) \<le> 19"
  shows "getBEFB (xor_hex hex1 hex2) = Some (uint (bufferFromHex (drop 2 hex1) ! 19))"
proof -
  define buf1 where "buf1 = bufferFromHex (drop 2 hex1)"
  define buf2 where "buf2 = bufferFromHex (drop 2 hex2)"
  define f where "f = (\<lambda>i. (buf1 ! i) XOR (if i < length buf2 then buf2 ! i else 0))"
  have x: "xor_hex hex1 hex2 = bufferToHex (map f [0 ..< 20])"
    unfolding xor_hex_def buf1_def buf2_def f_def Let_def using len1 by simp
  have "[0 ..< Suc 19] = [0 ..< 19] @ [19::nat]" by (rule upt_Suc_append) simp
  then have "[0 ..< 20] = [0 ..< 19] @ [19::nat]" by (simp del: upt_Suc)
  then have "map f [0 ..< 20] = map f [0 ..< 19] @ [f 19]" by simp
  moreover have "f 19 = buf1 ! 19" using len2 by (simp add: f_def buf2_def)
  ultimately have y: "xor_hex hex1 hex2 =
      bufferToHex (map f [0 ..< 19]) @ [digitChar (unat (buf1 ! 19) div 16), digitChar (unat (buf1 ! 19) mod 16)]"
    using x by (simp add: bufferToHex_snoc)
  have l: "length (bufferToHex (map f [0 ..< 19])) = 38" by (simp add: length_bufferToHex)
  show ?thesis
    unfolding getBEFB_def pad_def y using l parseInt16_byte[of "buf1 ! 19"]
    by (simp add: buf1_def)
qed

lemma length_toHexString_short:
  assumes "0 \<le> key" "key < 2 ^ 152"
  shows "\<exists>h. toHexString key = ''0x'' @ h \<and> length h \<le> 38"
proof -
  have "key < 16 ^ 38" using assms by simp
  then have l: "length (digits16 key) \<le> 38" using length_digits16[of key 38] assms by simp
  have "odd (length (digits16 key)) \<Longrightarrow> length (digits16 key) \<le> 37"
    using l by (cases "length (digits16 key) = 38") auto
  then show ?thesis using assms l by (auto simp: toHexString_def Let_def)
qed

lemma resolved_short_key:
  assumes key: "0 \<le> key" "key < 2 ^ 152"
      and len1: "length (bufferFromHex (drop 2 signerAddress)) = 20"
  shows "resolved signerAddress lim key =
           (betweenLimits lim key \<and> uint (bufferFromHex (drop 2 signerAddress) ! 19) = GOAL)"
proof -
  obtain h where h: "toHexString key = ''0x'' @ h" "length h \<le> 38"
    using length_toHexString_short[OF key] by blast
  have "length (pad (toHexString key) 40) = 40" using h by (simp add: pad_def)
  then have "length (drop 2 (pad (toHexString key) 40)) = 38" by simp
  then have "length (bufferFromHex (drop 2 (pad (toHexString key) 40))) \<le> 19"
    using length_bufferFromHex[of "drop 2 (pad (toHexString key) 40)"] by simp
  from getBEFB_xor_short[OF len1 this] show ?thesis
    by (simp add: resolved_def)
qed


lemma resolveLoop_Some:
  assumes run: "resolveLoop rnd s lim ck pos = Some y"
  shows "\<exists>k. y = (Inr k, snd y) \<and> resolved s lim k \<and> pos \<le> snd y"
proof (rule resolveLoop.raw_induct
    [where P = "\<lambda>rnd s lim ck pos y. \<exists>k. y = (Inr k, snd y) \<and> resolved s lim k \<and> pos \<le> snd y",
     OF _ run])
  fix loop rnd s lim ck pos y
  assume IH: "\<And>rnd s lim ck pos y. loop rnd s lim ck pos = Some y \<Longrightarrow>
               \<exists>k. y = (Inr k, snd y) \<and> resolved s lim k \<and> pos \<le> snd y"
    and body: "(if resolved s lim ck then Some (Inr ck, pos)
                else case drawKey rnd pos of
                       (Inl e, pos') \<Rightarrow> Some (Inl e, pos')
                     | (Inr ck', pos') \<Rightarrow> loop rnd s lim ck' pos') = Some y"
  show "\<exists>k. y = (Inr k, snd y) \<and> resolved s lim k \<and> pos \<le> snd y"
  proof (cases "resolved s lim ck")
    case True
    with body show ?thesis by auto
  next
    case False
    obtain ck' where d: "drawKey rnd pos = (Inr ck', pos + 40)"
      using drawKey_returns[of rnd pos] by blast
    with False body have "loop rnd s lim ck' (pos + 40) = Some y" by simp
    from IH[OF this] show ?thesis by auto
  qed
qed

lemma resolveLoop_never:
  assumes never: "\<And>k. 0 \<le> k \<Longrightarrow> \<not> resolved s lim k"
      and ck: "0 \<le> ck"
  shows "resolveLoop rnd s lim ck pos = None"
proof (cases "resolveLoop rnd s lim ck pos")
  case None
  then show ?thesis .
next
  case (Some y)
  have "s = s \<longrightarrow> lim = lim \<longrightarrow> 0 \<le> ck \<longrightarrow> False"
  proof (rule resolveLoop.raw_induct
      [where P = "\<lambda>rnd s' lim' ck pos y. s' = s \<longrightarrow> lim' = lim \<longrightarrow> 0 \<le> ck \<longrightarrow> False",
       OF _ Some])
    fix loop rnd s' lim' ck pos y
    assume IH: "\<And>rnd s' lim' ck pos y. loop rnd s' lim' ck pos = Some y \<Longrightarrow>
                 s' = s \<longrightarrow> lim' = lim \<longrightarrow> 0 \<le> ck \<longrightarrow> False"
      and body: "(if resolved s' lim' ck then Some (Inr ck, pos)
                  else case drawKey rnd pos of
                         (Inl e, pos') \<Rightarrow> Some (Inl e, pos')
                       | (Inr ck', pos') \<Rightarrow> loop rnd s' lim' ck' pos') = Some y"
    show "s' = s \<longrightarrow> lim' = lim \<longrightarrow> 0 \<le> ck \<longrightarrow> False"
    proof (intro impI)
      assume eq: "s' = s" "lim' = lim" and nn: "0 \<le> ck"
      obtain ck' where d: "drawKey rnd pos = (Inr ck', pos + 40)" "0 \<le> ck'"
        using drawKey_returns[of rnd pos] by blast
      have "\<not> resolved s' lim' ck" using never[OF nn] eq by simp
      with body d have "loop rnd s' lim' ck' (pos + 40) = Some y" by simp
      from IH[OF this] eq d show False by simp
    qed
  qed
  with ck show ?thesis by simp
qed

lemma resolveLoop_eventually:
  assumes "resolved s lim k" and "drawKey rnd (pos + 40 * j) = (Inr k, p)"
  shows "\<exists>y. resolveLoop rnd s lim ck pos = Some y"
  using assms
proof (induction j arbitrary: ck pos)
  case 0
  show ?case
  proof (cases "resolved s lim ck")
    case True
    then show ?thesis by (subst resolveLoop.simps) simp
  next
    case False
    have "resolveLoop rnd s lim k p = Some (Inr k, p)"
      using "0.prems" by (subst resolveLoop.simps) simp
    with False "0.prems" show ?thesis by (subst resolveLoop.simps) simp
  qed
next
  case (Suc j)
  show ?case
  proof (cases "resolved s lim ck")
    case True
    then show ?thesis by (subst resolveLoop.simps) simp
  next
    case False
    obtain ck' where d: "drawKey rnd pos = (Inr ck', pos + 40)"
      using drawKey_returns[of rnd pos] by blast
    have "pos + 40 + 40 * j = pos + 40 * Suc j" by simp
    with Suc.prems have "drawKey rnd (pos + 40 + 40 * j) = (Inr k, p)" by (simp add: add.assoc)
    from Suc.IH[OF Suc.prems(1) this, of ck'] obtain y where
      "resolveLoop rnd s lim ck' (pos + 40) = Some y" by blast
    with False d show ?thesis by (subst resolveLoop.simps) simp
  qed
qed

lemma resolveChallenge_Some:
  assumes signer: "bigNumberFrom signerAddress = Inr signer"
      and run: "resolveChallenge rnd pos signerAddress = Some y"
  shows "\<exists>k. y = (Inr k, snd y) \<and> resolved signerAddress (limits signer) k \<and> pos \<le> snd y"
proof -
  obtain ck where d: "drawKey rnd pos = (Inr ck, pos + 40)"
    using drawKey_returns[of rnd pos] by blast
  from run signer d have "resolveLoop rnd signerAddress (limits signer) ck (pos + 40) = Some y"
    by (simp add: resolveChallenge_def)
  from resolveLoop_Some[OF this] show ?thesis by auto
qed

lemma digitsToInt_append:
  "digitsToInt base val acc (xs @ ys) =
     (case digitsToInt base val acc xs of None \<Rightarrow> None | Some m \<Rightarrow> digitsToInt base val m ys)"
  by (induction xs arbitrary: acc) (auto split: option.splits)

lemma digits16_roundtrip: "0 \<le> n \<Longrightarrow> digitsToInt 16 hexValue 0 (digits16 n) = Some n"
proof (induction n rule: digits16.induct)
  case (1 n)
  show ?case
  proof (cases "n < 16")
    case True
    with "1.prems" show ?thesis
      by (subst digits16.simps) (simp add: digitChar_hexValue)
  next
    case False
    then have q: "0 \<le> n div 16" by simp
    have r: "hexValue (digitChar (nat (n mod 16))) = Some (n mod 16)"
      by (rule digitChar_hexValue) simp_all
    from "1.IH"[OF False q] r False show ?thesis
      by (subst digits16.simps) (simp add: digitsToInt_append)
  qed
qed

lemma digits16_hex: "0 \<le> n \<Longrightarrow> list_all (\<lambda>c. hexValue c \<noteq> None) (digits16 n)"
proof (induction n rule: digits16.induct)
  case (1 n)
  show ?case
  proof (cases "n < 16")
    case True
    with "1.prems" show ?thesis
      by (subst digits16.simps) (simp add: digitChar_hexValue)
  next
    case False
    then have q: "0 \<le> n div 16" by simp
    have r: "hexValue (digitChar (nat (n mod 16))) = Some (n mod 16)"
      by (rule digitChar_hexValue) simp_all
    from "1.IH"[OF False q] r False show ?thesis
      by (subst digits16.simps) simp
  qed
qed

lemma digits16_nonempty: "digits16 n \<noteq> []"
  by (subst digits16.simps) simp

lemma toHex_roundtrip: "0 \<le> n \<Longrightarrow> bigNumberFrom (toHex n) = Inr n"
  using digits16_roundtrip[of n] digits16_nonempty[of n]
  by (simp add: bigNumberFrom_def toHex_def toString16_def decValue_x)

lemma length_digits16_lower: "16 ^ k \<le> n \<Longrightarrow> k < length (digits16 n)"
proof (induction n arbitrary: k rule: digits16.induct)
  case (1 n)
  show ?case
  proof (cases k)
    case 0
    then show ?thesis using digits16_nonempty[of n] by (cases "digits16 n") auto
  next
    case (Suc j)
    with "1.prems" have ge: "16 * 16 ^ j \<le> n" by simp
    have "(1::int) \<le> 16 ^ j" by simp
    with ge have n16: "\<not> n < 16" by linarith
    from ge have "16 ^ j \<le> n div 16" by linarith
    from "1.IH"[OF n16 this] n16 Suc show ?thesis
      by (subst digits16.simps) simp
  qed
qed

lemma length_bufferFromHex_hex:
  "list_all (\<lambda>c. hexValue c \<noteq> None) s \<Longrightarrow> length (bufferFromHex s) = length s div 2"
  by (induction s rule: bufferFromHex.induct) (auto split: option.splits)

lemma getBEFB_last_byte:
  "length pre = 38 \<Longrightarrow>
   getBEFB (pre @ [digitChar (unat b div 16), digitChar (unat b mod 16)]) = Some (uint b)"
  for b :: "8 word"
  using parseInt16_byte[of b] by (simp add: getBEFB_def pad_def)

lemma resolved_long_key:
  assumes key: "2 ^ 152 \<le> key" "key < 2 ^ 160"
      and len1: "length (bufferFromHex (drop 2 signerAddress)) = 20"
  shows "resolved signerAddress lim key =
           (betweenLimits lim key \<and> specLastByte signerAddress key = GOAL)"
proof -
  have nn: "0 \<le> key" using key(1) by (rule order_trans[rotated]) simp
  define h where "h = pad (digits16 key) 40"
  have "(16::int) ^ 38 \<le> key" using key(1) by simp
  then have lo: "38 < length (digits16 key)" by (rule length_digits16_lower)
  have "key < 16 ^ 40" using key(2) by simp
  then have hi: "length (digits16 key) \<le> 40" using length_digits16[of key 40] nn by simp
  from lo hi have cases: "length (digits16 key) = 39 \<or> length (digits16 key) = 40" by linarith
  have lh: "length h = 40" using hi by (simp add: h_def pad_def)
  have th: "toHexString key = ''0x'' @ h"
    using cases nn by (auto simp: toHexString_def Let_def h_def pad_def)
  have zero: "hexValue CHR ''0'' \<noteq> None" by (simp add: hexValue_def)
  have hh: "list_all (\<lambda>c. hexValue c \<noteq> None) h"
    using digits16_hex[OF nn] zero by (auto simp: h_def pad_def list_all_iff)
  define buf1 where "buf1 = bufferFromHex (drop 2 signerAddress)"
  define buf2 where "buf2 = bufferFromHex h"
  have l2: "length buf2 = 20" using length_bufferFromHex_hex[OF hh] lh by (simp add: buf2_def)
  have l1: "length buf1 = 20" using len1 by (simp add: buf1_def)
  have padded: "drop 2 (pad (toHexString key) 40) = h" using lh by (simp add: th pad_def)
  define f where "f = (\<lambda>i. (buf1 ! i) XOR (if i < length buf2 then buf2 ! i else 0))"
  have x: "xor_hex signerAddress (pad (toHexString key) 40) = bufferToHex (map f [0 ..< 20])"
    unfolding xor_hex_def padded f_def buf1_def buf2_def Let_def using len1 by simp
  have "[0 ..< Suc 19] = [0 ..< 19] @ [19::nat]" by (rule upt_Suc_append) simp
  then have "[0 ..< 20] = [0 ..< 19] @ [19::nat]" by (simp del: upt_Suc)
  then have "map f [0 ..< 20] = map f [0 ..< 19] @ [f 19]" by simp
  moreover have f19: "f 19 = buf1 ! 19 XOR buf2 ! 19" using l2 by (simp add: f_def)
  ultimately have y: "xor_hex signerAddress (pad (toHexString key) 40) =
      bufferToHex (map f [0 ..< 19]) @
        [digitChar (unat (buf1 ! 19 XOR buf2 ! 19) div 16),
         digitChar (unat (buf1 ! 19 XOR buf2 ! 19) mod 16)]"
    using x by (simp add: bufferToHex_snoc)
  have l: "length (bufferToHex (map f [0 ..< 19])) = 38" by (simp add: length_bufferToHex)
  have g: "getBEFB (xor_hex signerAddress (pad (toHexString key) 40)) =
             Some (uint (buf1 ! 19 XOR buf2 ! 19))"
    unfolding y by (rule getBEFB_last_byte[OF l])
  have z: "zip buf1 buf2 \<noteq> []" using l1 l2 by (cases buf1; cases buf2) auto
  have "last (map (\<lambda>(a, b). a XOR b) (zip buf1 buf2)) =
          (\<lambda>(a, b). a XOR b) (zip buf1 buf2 ! 19)"
    using l1 l2 z by (simp add: last_map last_conv_nth)
  also have "\<dots> = buf1 ! 19 XOR buf2 ! 19" using l1 l2 by simp
  finally have s: "specLastByte signerAddress key = uint (buf1 ! 19 XOR buf2 ! 19)"
    by (simp add: specLastByte_def h_def[symmetric] buf1_def buf2_def)
  show ?thesis by (simp add: resolved_def g s)
qed

lemma bigNumberFrom_address:
  assumes "isAddress s"
  shows "\<exists>signer. bigNumberFrom s = Inr signer \<and> 0 \<le> signer"
proof -
  define hex where "hex = drop 2 s"
  from assms have s: "s = ''0x'' @ hex" and ne: "hex \<noteq> []"
    and all: "list_all (\<lambda>c. hexValue c \<noteq> None) hex"
    unfolding isAddress_def hex_def
    by (metis append_take_drop_id, auto)
  obtain n where n: "digitsToInt 16 hexValue 0 hex = Some n" "0 \<le> n"
    using digitsToInt_hex[OF all, of 0] by auto
  have "bigNumberFrom (''0x'' @ hex) = Inr n"
    using n ne by (simp add: bigNumberFrom_def decValue_x)
  with s n show ?thesis by auto
qed

lemma resolveChallenge_no_error:
  assumes "isAddress signerAddress"
      and "resolveChallenge rnd pos signerAddress = Some (r, p)"
  shows "\<exists>key. r = Inr key"
proof -
  from bigNumberFrom_address[OF assms(1)] obtain signer where
    "bigNumberFrom signerAddress = Inr signer" by blast
  from resolveChallenge_Some[OF this assms(2)] show ?thesis by auto
qed

lemma resolved_betweenLimits: "resolved s lim k \<Longrightarrow> betweenLimits lim k"
  by (auto simp: resolved_def split: if_splits)

lemma betweenLimits_admissible: "betweenLimits (limits signer) k = specAdmissible signer k"
  by (auto simp: betweenLimits_def limits_def specAdmissible_def)

lemma callerEven_run: "resolveChallenge draw1047 0 callerEven = Some (Inr key1047, 40)"
  by code_simp

lemma callerOdd_run: "resolveChallenge draw1046 0 callerOdd = Some (Inr key1046, 40)"
  by code_simp

lemma resolveChallenge_diverges:
  assumes signer: "bigNumberFrom signerAddress = Inr signer"
      and odd: "odd signer" and short: "signer \<le> 2 ^ 152"
      and len: "length (bufferFromHex (drop 2 signerAddress)) = 20"
      and byte: "uint (bufferFromHex (drop 2 signerAddress) ! 19) \<noteq> GOAL"
  shows "resolveChallenge rnd pos signerAddress = None"
proof -
  have never: "\<not> resolved signerAddress (limits signer) k" if "0 \<le> k" for k
  proof (cases "betweenLimits (limits signer) k")
    case True
    then have "k \<le> signer - 1" using odd by (simp add: betweenLimits_admissible specAdmissible_def)
    then have "k < 2 ^ 152" using short by linarith
    from resolved_short_key[OF that this len] byte show ?thesis by simp
  next
    case False
    then show ?thesis by (simp add: resolved_def)
  qed
  obtain ck where d: "drawKey rnd pos = (Inr ck, pos + 40)" "0 \<le> ck"
    using drawKey_returns[of rnd pos] by blast
  have "resolveLoop rnd signerAddress (limits signer) ck (pos + 40) = None"
    by (rule resolveLoop_never) (use never d in auto)
  then show ?thesis using signer d by (simp add: resolveChallenge_def)
qed

section \<open>Facts about swapCallParameters\<close>

lemma ttl_check:
  "(case e of Ttl ttl \<Rightarrow> 0 < ttl | Deadline d \<Rightarrow> True) =
   (\<not> (case e of Ttl ttl \<Rightarrow> ttl \<le> 0 | Deadline d \<Rightarrow> False))"
  by (cases e) auto

lemmas swapCall_unfold =
  swapCallParameters_def bothNative_def ttlNotPositive_def ttl_check Let_def

lemma swapCall_diverges:
  "resolveChallenge rnd pos caller = None \<Longrightarrow>
   swapCallParameters validateAndParseAddress rnd pos now trade options caller = None"
  by (simp add: swapCallParameters_def)

lemma swapCall_challenge_error:
  "resolveChallenge rnd pos caller = Some (Inl e, pos') \<Longrightarrow>
   swapCallParameters validateAndParseAddress rnd pos now trade options caller =
     Some (Inl e, pos')"
  by (simp add: swapCallParameters_def)

lemma swapCall_ether_in_out:
  "resolveChallenge rnd pos caller = Some (Inr key, pos') \<Longrightarrow> bothNative trade \<Longrightarrow>
   swapCallParameters validateAndParseAddress rnd pos now trade options caller =
     Some (Inl (InvariantFailed ''ETHER_IN_OUT''), pos')"
  by (simp add: swapCall_unfold)

lemma swapCall_ttl:
  "resolveChallenge rnd pos caller = Some (Inr key, pos') \<Longrightarrow> \<not> bothNative trade \<Longrightarrow>
   ttlNotPositive options \<Longrightarrow>
   swapCallParameters validateAndParseAddress rnd pos now trade options caller =
     Some (Inl (InvariantFailed ''TTL''), pos')"
  by (simp add: swapCall_unfold)

lemma swapCall_address_error:
  "resolveChallenge rnd pos caller = Some (Inr key, pos') \<Longrightarrow> \<not> bothNative trade \<Longrightarrow>
   \<not> ttlNotPositive options \<Longrightarrow> validateAndParseAddress (recipient options) = Inl msg \<Longrightarrow>
   swapCallParameters validateAndParseAddress rnd pos now trade options caller =
     Some (Inl (AddressError msg), pos')"
  by (simp add: swapCall_unfold)

lemma swapCall_amount_error:
  "resolveChallenge rnd pos caller = Some (Inr key, pos') \<Longrightarrow> \<not> bothNative trade \<Longrightarrow>
   \<not> ttlNotPositive options \<Longrightarrow> validateAndParseAddress (recipient options) = Inr to \<Longrightarrow>
   maximumAmountIn trade (allowedSlippage options) = Inl msg \<Longrightarrow>
   swapCallParameters validateAndParseAddress rnd pos now trade options caller =
     Some (Inl (AmountError msg), pos')"
  by (simp add: swapCall_unfold)

lemma swapCall_exact_out_fot:
  "resolveChallenge rnd pos caller = Some (Inr key, pos') \<Longrightarrow> \<not> bothNative trade \<Longrightarrow>
   \<not> ttlNotPositive options \<Longrightarrow> validateAndParseAddress (recipient options) = Inr to \<Longrightarrow>
   maximumAmountIn trade (allowedSlippage options) = Inr raw \<Longrightarrow>
   exactOutWithFee trade options \<Longrightarrow>
   swapCallParameters validateAndParseAddress rnd pos now trade options caller =
     Some (Inl (InvariantFailed ''EXACT_OUT_FOT''), pos')"
  by (simp add: swapCall_unfold exactOutWithFee_def)

lemma swapCall_returns:
  assumes "resolveChallenge rnd pos caller = Some (Inr key, pos')"
      and "\<not> bothNative trade" and "\<not> ttlNotPositive options"
      and "validateAndParseAddress (recipient options) = Inr to"
      and "maximumAmountIn trade (allowedSlippage options) = Inr raw"
      and "\<not> exactOutWithFee trade options"
  shows "\<exists>sp. tableCall (tradeType trade) (inputIsETHER trade) (outputIsETHER trade)
                 (Boolean (feeOnTransfer options)) (toHex raw) (map address (routePath trade))
                 to (deadlineArg now (expiry options)) (toHexString key) = Some sp
              \<and> swapCallParameters validateAndParseAddress rnd pos now trade options caller =
                  Some (Inr sp, pos')"
  using assms
  by (cases "tradeType trade"; cases "inputIsETHER trade"; cases "outputIsETHER trade";
      cases "Boolean (feeOnTransfer options)")
    (simp_all add: swapCall_unfold exactOutWithFee_def tableCall_def ZERO_HEX_def
      deadlineArg_def)

lemma swapCall_returns_inversion:
  assumes ret: "swapCallParameters validateAndParseAddress rnd pos now trade options caller =
                  Some (Inr sp, pos')"
  shows "\<exists>key to raw.
           resolveChallenge rnd pos caller = Some (Inr key, pos')
         \<and> \<not> bothNative trade \<and> \<not> ttlNotPositive options \<and> \<not> exactOutWithFee trade options
         \<and> validateAndParseAddress (recipient options) = Inr to
         \<and> maximumAmountIn trade (allowedSlippage options) = Inr raw
         \<and> tableCall (tradeType trade) (inputIsETHER trade) (outputIsETHER trade)
              (Boolean (feeOnTransfer options)) (toHex raw) (map address (routePath trade))
              to (deadlineArg now (expiry options)) (toHexString key) = Some sp"
proof -
  obtain r p where c: "resolveChallenge rnd pos caller = Some (r, p)"
    using ret swapCall_diverges[of rnd pos caller validateAndParseAddress now trade options]
    by (cases "resolveChallenge rnd pos caller") auto
  obtain key where r: "r = Inr key"
    using ret c swapCall_challenge_error[of rnd pos caller _ p validateAndParseAddress now trade options]
    by (cases r) auto
  note k = c[unfolded r]
  have nb: "\<not> bothNative trade"
    using ret swapCall_ether_in_out[OF k, of trade validateAndParseAddress now options] by auto
  have nt: "\<not> ttlNotPositive options"
    using ret swapCall_ttl[OF k nb, of options validateAndParseAddress now] by auto
  obtain to where to: "validateAndParseAddress (recipient options) = Inr to"
    using ret swapCall_address_error[where validateAndParseAddress = validateAndParseAddress, OF k nb nt, of _ now]
    by (cases "validateAndParseAddress (recipient options)") auto
  obtain raw where raw: "maximumAmountIn trade (allowedSlippage options) = Inr raw"
    using ret swapCall_amount_error[where validateAndParseAddress = validateAndParseAddress, OF k nb nt to, of _ now]
    by (cases "maximumAmountIn trade (allowedSlippage options)") auto
  have nf: "\<not> exactOutWithFee trade options"
    using ret swapCall_exact_out_fot[where validateAndParseAddress = validateAndParseAddress, OF k nb nt to raw, of now] by auto
  from swapCall_returns[where validateAndParseAddress = validateAndParseAddress, OF k nb nt to raw nf, of now] ret have
    "p = pos'" and "tableCall (tradeType trade) (inputIsETHER trade) (outputIsETHER trade)
              (Boolean (feeOnTransfer options)) (toHex raw) (map address (routePath trade))
              to (deadlineArg now (expiry options)) (toHexString key) = Some sp"
    by auto
  with k nb nt nf to raw show ?thesis by auto
qed

lemma tableCall_shape:
  assumes "tableCall dir etherIn etherOut fee amountIn path to deadline key = Some sp"
  shows "\<exists>name slots native.
           decisionTable dir etherIn etherOut fee = Some (name, slots, native)
         \<and> methodName sp = name
         \<and> args sp = map (encodeSlot amountIn path to deadline) slots @ [Scalar key]
         \<and> value sp = (case native of SendAmountIn \<Rightarrow> amountIn | SendZero \<Rightarrow> ''0x0'')"
  using assms by (auto simp: tableCall_def split: option.splits)

lemma decisionTable_rows:
  assumes "decisionTable dir etherIn etherOut fee = Some (name, slots, native)"
  shows "(native = SendAmountIn) = etherIn"
    and "length slots = (if etherIn then 4 else 5)"
    and "slots ! (length slots - 1) = DeadlineArg"
    and "slots ! (if dir = EXACT_INPUT \<and> \<not> etherIn then 1 else 0) \<in> {MinOut, AmountOut}"
    and "\<not> (etherIn \<and> etherOut)"
  using assms
  by (cases dir; cases etherIn; cases etherOut; cases fee; auto)+

lemma bigNumberFrom_error: "bigNumberFrom s = Inl e \<Longrightarrow> e = InvalidBigNumber s"
  by (auto simp: bigNumberFrom_def Let_def split: if_splits option.splits)

lemma resolveChallenge_error:
  assumes "resolveChallenge rnd pos signerAddress = Some (Inl e, p)"
  shows "e = InvalidBigNumber signerAddress"
proof (cases "bigNumberFrom signerAddress")
  case (Inl e')
  with assms bigNumberFrom_error[OF Inl] show ?thesis by (simp add: resolveChallenge_def)
next
  case (Inr signer)
  from resolveChallenge_Some[OF Inr assms] show ?thesis by simp
qed

lemma swapCall_outcome:
  assumes k: "resolveChallenge rnd pos caller = Some (Inr key, pos')"
  shows "failsWith (swapCallParameters validateAndParseAddress rnd pos now trade options caller)
           ''ETHER_IN_OUT'' = bothNative trade"
    and "failsWith (swapCallParameters validateAndParseAddress rnd pos now trade options caller)
           ''TTL'' = (\<not> bothNative trade \<and> ttlNotPositive options)"
    and "failsWith (swapCallParameters validateAndParseAddress rnd pos now trade options caller)
           ''EXACT_OUT_FOT'' =
         (\<not> bothNative trade \<and> \<not> ttlNotPositive options
          \<and> \<not> isl (validateAndParseAddress (recipient options))
          \<and> \<not> isl (maximumAmountIn trade (allowedSlippage options))
          \<and> exactOutWithFee trade options)"
    and "returnsCall (swapCallParameters validateAndParseAddress rnd pos now trade options caller) =
         (\<not> bothNative trade \<and> \<not> ttlNotPositive options
          \<and> \<not> isl (validateAndParseAddress (recipient options))
          \<and> \<not> isl (maximumAmountIn trade (allowedSlippage options))
          \<and> \<not> exactOutWithFee trade options)"
proof -
  let ?R = "swapCallParameters validateAndParseAddress rnd pos now trade options caller"
  have "failsWith ?R ''ETHER_IN_OUT'' = bothNative trade
      \<and> failsWith ?R ''TTL'' = (\<not> bothNative trade \<and> ttlNotPositive options)
      \<and> failsWith ?R ''EXACT_OUT_FOT'' =
         (\<not> bothNative trade \<and> \<not> ttlNotPositive options
          \<and> \<not> isl (validateAndParseAddress (recipient options))
          \<and> \<not> isl (maximumAmountIn trade (allowedSlippage options))
          \<and> exactOutWithFee trade options)
      \<and> returnsCall ?R =
         (\<not> bothNative trade \<and> \<not> ttlNotPositive options
          \<and> \<not> isl (validateAndParseAddress (recipient options))
          \<and> \<not> isl (maximumAmountIn trade (allowedSlippage options))
          \<and> \<not> exactOutWithFee trade options)"
  proof (cases "bothNative trade")
    case True
    from swapCall_ether_in_out[OF k True, of validateAndParseAddress now options] True
    show ?thesis by (simp add: failsWith_def returnsCall_def)
  next
    case nb: False
    show ?thesis
    proof (cases "ttlNotPositive options")
      case True
      from swapCall_ttl[OF k nb True, of validateAndParseAddress now] nb True
      show ?thesis by (simp add: failsWith_def returnsCall_def)
    next
      case nt: False
      show ?thesis
      proof (cases "validateAndParseAddress (recipient options)")
        case (Inl msg)
        from swapCall_address_error
               [where validateAndParseAddress = validateAndParseAddress, OF k nb nt Inl, of now]
             nb nt Inl
        show ?thesis by (simp add: failsWith_def returnsCall_def)
      next
        case to: (Inr to)
        show ?thesis
        proof (cases "maximumAmountIn trade (allowedSlippage options)")
          case (Inl msg)
          from swapCall_amount_error
                 [where validateAndParseAddress = validateAndParseAddress, OF k nb nt to Inl,
                  of now]
               nb nt to Inl
          show ?thesis by (simp add: failsWith_def returnsCall_def)
        next
          case raw: (Inr raw)
          show ?thesis
          proof (cases "exactOutWithFee trade options")
            case True
            from swapCall_exact_out_fot
                   [where validateAndParseAddress = validateAndParseAddress,
                    OF k nb nt to raw True, of now]
                 nb nt to raw True
            show ?thesis by (simp add: failsWith_def returnsCall_def)
          next
            case False
            from swapCall_returns
                   [where validateAndParseAddress = validateAndParseAddress,
                    OF k nb nt to raw False, of now]
                 nb nt to raw False
            show ?thesis by (auto simp: failsWith_def returnsCall_def)
          qed
        qed
      qed
    qed
  qed
  then show "failsWith ?R ''ETHER_IN_OUT'' = bothNative trade"
    and "failsWith ?R ''TTL'' = (\<not> bothNative trade \<and> ttlNotPositive options)"
    and "failsWith ?R ''EXACT_OUT_FOT'' =
         (\<not> bothNative trade \<and> \<not> ttlNotPositive options
          \<and> \<not> isl (validateAndParseAddress (recipient options))
          \<and> \<not> isl (maximumAmountIn trade (allowedSlippage options))
          \<and> exactOutWithFee trade options)"
    and "returnsCall ?R =
         (\<not> bothNative trade \<and> \<not> ttlNotPositive options
          \<and> \<not> isl (validateAndParseAddress (recipient options))
          \<and> \<not> isl (maximumAmountIn trade (allowedSlippage options))
          \<and> \<not> exactOutWithFee trade options)"
    by blast+
qed

lemma sample_challenge: "resolveChallenge draw1047 0 callerEven = Some (Inr key1047, 40)"
  by code_simp

lemma sample_recipient:
  "sampleValidate (recipient sampleOptions) = Inr ''0x52908400098527886e0f7030069857d2e4169ee7''"
  by code_simp

lemma sample_amount: "maximumAmountIn sampleTrade (allowedSlippage sampleOptions) = Inr 100"
  by (simp add: sampleTrade_def)

lemma sample_call:
  "swapCallParameters sampleValidate draw1047 0 sampleNow sampleTrade sampleOptions callerEven =
     Some (Inr \<lparr>methodName = ''swapExactTokensForTokens'',
                args = [Scalar ''0x64'', Scalar ''0x0'',
                        AddressList [''0x1f9840a85d5af5bf1d1762f925bdaddc4201f984'',
                                     ''0x6b175474e89094c44da98b954eedeac495271d0f''],
                        Scalar ''0x52908400098527886e0f7030069857d2e4169ee7'',
                        Scalar ''0x6553f5b0'',
                        Scalar ''0x1000000000000000000000000000000000000047''],
                value = ''0x0''\<rparr>, 40)"
  by code_simp

lemma deadline_zero_call:
  "swapCallParameters sampleValidate draw1047 0 sampleNow sampleTrade deadlineZeroOptions
     callerEven =
     Some (Inr \<lparr>methodName = ''swapExactTokensForTokens'',
                args = [Scalar ''0x64'', Scalar ''0x0'',
                        AddressList [''0x1f9840a85d5af5bf1d1762f925bdaddc4201f984'',
                                     ''0x6b175474e89094c44da98b954eedeac495271d0f''],
                        Scalar ''0x52908400098527886e0f7030069857d2e4169ee7'',
                        Scalar ''0x0'',
                        Scalar ''0x1000000000000000000000000000000000000047''],
                value = ''0x0''\<rparr>, 40)"
  by code_simp

lemma both_native_ttl_zero_call:
  "swapCallParameters sampleValidate draw1047 0 sampleNow bothNativeTrade ttlZeroOptions
     callerEven = Some (Inl (InvariantFailed ''ETHER_IN_OUT''), 40)"
  by code_simp

lemma both_native_call:
  "swapCallParameters rejectAll draw1047 0 sampleNow bothNativeTrade sampleOptions callerEven =
     Some (Inl (InvariantFailed ''ETHER_IN_OUT''), 40)"
  by code_simp

lemma exact_out_fee_call:
  "swapCallParameters sampleValidate draw1047 0 sampleNow exactOutFeeTrade feeOptions callerEven =
     Some (Inl (InvariantFailed ''EXACT_OUT_FOT''), 40)"
  by code_simp

lemma hexDigitOf_digitChar: "0 \<le> d \<Longrightarrow> d < 16 \<Longrightarrow> hexDigitOf d = digitChar (nat d)"
proof -
  assume "0 \<le> d" "d < 16"
  then have "d \<in> {0,1,2,3,4,5,6,7,8,9,10,11,12,13,14,15}" by simp presburger
  then show ?thesis unfolding hexDigitOf_def digitChar_def by (elim insertE emptyE) simp_all
qed

lemma hexDigitsAcc_digits16: "0 \<le> n \<Longrightarrow> hexDigitsAcc n acc = digits16 n @ acc"
proof (induction n acc rule: hexDigitsAcc.induct)
  case (1 n acc)
  show ?case
  proof (cases "n < 16")
    case True
    with "1.prems" show ?thesis
      by (subst hexDigitsAcc.simps, subst digits16.simps) (simp add: hexDigitOf_digitChar)
  next
    case False
    then have q: "0 \<le> n div 16" by simp
    have r: "hexDigitOf (n mod 16) = digitChar (nat (n mod 16))"
      by (rule hexDigitOf_digitChar) simp_all
    from "1.IH"[OF False q] False r show ?thesis
      by (subst hexDigitsAcc.simps, subst digits16.simps) simp
  qed
qed

lemma toString16_hexScalar: "0 \<le> n \<Longrightarrow> ''0x'' @ toString16 n = hexScalar n"
  by (simp add: hexScalar_def toString16_def hexDigitsAcc_digits16)

lemma toHex_hexScalar: "0 \<le> raw \<Longrightarrow> toHex raw = hexScalar raw"
  using toString16_hexScalar[of raw] by (simp add: toHex_def)

lemma toHexString_hexScalar:
  "0 \<le> key \<Longrightarrow>
   toHexString key = hexScalar key \<or> toHexString key = ''0x0'' @ drop 2 (hexScalar key)"
  by (simp add: toHexString_def Let_def hexScalar_def hexDigitsAcc_digits16)

lemma scaleOf_zero: "m < 2 ^ 53 \<Longrightarrow> scaleOf m 0 = 0"
  by (subst scaleOf.simps) simp

lemma roundToDouble_safe: "\<bar>x\<bar> \<le> 2 ^ 53 \<Longrightarrow> roundToDouble x = x"
proof (cases "\<bar>x\<bar> < 2 ^ 53")
  case True
  then show ?thesis by (simp add: roundToDouble_def scaleOf_zero Let_def sgn_if)
next
  case False
  assume "\<bar>x\<bar> \<le> 2 ^ 53"
  with False have m: "\<bar>x\<bar> = 2 ^ 53" by simp
  have "roundToDouble (2 ^ 53) = 2 ^ 53" by code_simp
  moreover have "roundToDouble (- (2 ^ 53)) = - (2 ^ 53)" by code_simp
  moreover from m have "x = 2 ^ 53 \<or> x = - (2 ^ 53)" by linarith
  ultimately show ?thesis by auto
qed

lemma Boolean_Some_True: "Boolean b = (b = Some True)"
  by (cases b) (auto simp: Boolean_def)

lemma resolveLoop_nonneg:
  assumes run: "resolveLoop rnd s lim ck pos = Some y" and ck: "0 \<le> ck"
  shows "\<forall>k p. y = (Inr k, p) \<longrightarrow> 0 \<le> k"
proof -
  have "0 \<le> ck \<longrightarrow> (\<forall>k p. y = (Inr k, p) \<longrightarrow> 0 \<le> k)"
  proof (rule resolveLoop.raw_induct
      [where P = "\<lambda>rnd s lim ck pos y. 0 \<le> ck \<longrightarrow> (\<forall>k p. y = (Inr k, p) \<longrightarrow> 0 \<le> k)",
       OF _ run])
    fix loop rnd s lim ck pos y
    assume IH: "\<And>rnd s lim ck pos y. loop rnd s lim ck pos = Some y \<Longrightarrow>
                 0 \<le> ck \<longrightarrow> (\<forall>k p. y = (Inr k, p) \<longrightarrow> 0 \<le> k)"
      and body: "(if resolved s lim ck then Some (Inr ck, pos)
                  else case drawKey rnd pos of
                         (Inl e, pos') \<Rightarrow> Some (Inl e, pos')
                       | (Inr ck', pos') \<Rightarrow> loop rnd s lim ck' pos') = Some y"
    show "0 \<le> ck \<longrightarrow> (\<forall>k p. y = (Inr k, p) \<longrightarrow> 0 \<le> k)"
    proof
      assume nn: "0 \<le> ck"
      show "\<forall>k p. y = (Inr k, p) \<longrightarrow> 0 \<le> k"
      proof (cases "resolved s lim ck")
        case True
        with body nn show ?thesis by auto
      next
        case False
        obtain ck' where d: "drawKey rnd pos = (Inr ck', pos + 40)" "0 \<le> ck'"
          using drawKey_returns[of rnd pos] by blast
        with False body have "loop rnd s lim ck' (pos + 40) = Some y" by simp
        from IH[OF this] d show ?thesis by simp
      qed
    qed
  qed
  with ck show ?thesis by simp
qed

lemma resolveChallenge_nonneg:
  assumes "resolveChallenge rnd pos signerAddress = Some (Inr key, p)"
  shows "0 \<le> key"
proof (cases "bigNumberFrom signerAddress")
  case (Inl e)
  with assms show ?thesis by (simp add: resolveChallenge_def)
next
  case (Inr signer)
  obtain ck where d: "drawKey rnd pos = (Inr ck, pos + 40)" "0 \<le> ck"
    using drawKey_returns[of rnd pos] by blast
  from assms Inr d have "resolveLoop rnd signerAddress (limits signer) ck (pos + 40) =
      Some (Inr key, p)" by (simp add: resolveChallenge_def)
  from resolveLoop_nonneg[OF this d(2)] show ?thesis by simp
qed

lemma resolveLoop_stuck:
  assumes draw: "\<And>p. drawKey rnd p = (Inr c, p + 40)"
      and c: "\<not> resolved s lim c" and ck: "\<not> resolved s lim ck"
  shows "resolveLoop rnd s lim ck pos = None"
proof (cases "resolveLoop rnd s lim ck pos")
  case None
  then show ?thesis .
next
  case (Some y)
  have "rnd = rnd \<longrightarrow> s = s \<longrightarrow> lim = lim \<longrightarrow> \<not> resolved s lim ck \<longrightarrow> False"
  proof (rule resolveLoop.raw_induct
      [where P = "\<lambda>rnd' s' lim' ck pos y.
                    rnd' = rnd \<longrightarrow> s' = s \<longrightarrow> lim' = lim \<longrightarrow> \<not> resolved s lim ck \<longrightarrow> False",
       OF _ Some])
    fix loop rnd' s' lim' ck pos y
    assume IH: "\<And>rnd' s' lim' ck pos y. loop rnd' s' lim' ck pos = Some y \<Longrightarrow>
                 rnd' = rnd \<longrightarrow> s' = s \<longrightarrow> lim' = lim \<longrightarrow> \<not> resolved s lim ck \<longrightarrow> False"
      and body: "(if resolved s' lim' ck then Some (Inr ck, pos)
                  else case drawKey rnd' pos of
                         (Inl e, pos') \<Rightarrow> Some (Inl e, pos')
                       | (Inr ck', pos') \<Rightarrow> loop rnd' s' lim' ck' pos') = Some y"
    show "rnd' = rnd \<longrightarrow> s' = s \<longrightarrow> lim' = lim \<longrightarrow> \<not> resolved s lim ck \<longrightarrow> False"
    proof (intro impI)
      assume eq: "rnd' = rnd" "s' = s" "lim' = lim" and n: "\<not> resolved s lim ck"
      from body eq n draw[of pos] have "loop rnd s lim c (pos + 40) = Some y" by simp
      from IH[OF this] c show False by simp
    qed
  qed
  with ck show ?thesis by simp
qed

lemma drawZero_key: "drawKey drawZero p = (Inr 0, p + 40)"
proof -
  have "fst (genRanHex drawZero p 40) = map (\<lambda>idx. CHR ''0'') [0 ..< 40]"
    by (simp add: genRanHex_digits drawZero_def digitChar_def)
  also have "\<dots> = replicate 40 CHR ''0''" by (simp add: map_replicate_const)
  finally have h: "fst (genRanHex drawZero p 40) = replicate 40 CHR ''0''" .
  have b: "bigNumberFrom (''0x'' @ replicate 40 CHR ''0'') = Inr 0" by code_simp
  have "genRanHex drawZero p 40 = (fst (genRanHex drawZero p 40), p + 40)"
    by (simp add: genRanHex_def)
  with h b show ?thesis by (simp add: drawKey_def)
qed

lemma drawZero_hangs: "resolveChallenge drawZero pos callerEven = None"
proof -
  have s: "bigNumberFrom callerEven = Inr 2" by code_simp
  have n: "\<not> resolved callerEven (limits 2) 0" by code_simp
  have "resolveLoop drawZero callerEven (limits 2) 0 (pos + 40) = None"
    by (rule resolveLoop_stuck[OF drawZero_key n n])
  then show ?thesis using s by (simp add: resolveChallenge_def drawZero_key)
qed

lemma leading_zero_hangs: "resolveChallenge rnd pos callerLeadingZero = None"
proof -
  have s: "bigNumberFrom callerLeadingZero = Inr 0x00d5b2e8a9945ae3b3fb1c2568a5b1e5f4a0b127"
    by code_simp
  have len: "length (bufferFromHex (drop 2 callerLeadingZero)) = 20" by code_simp
  have byte: "uint (bufferFromHex (drop 2 callerLeadingZero) ! 19) \<noteq> GOAL" by code_simp
  show ?thesis by (rule resolveChallenge_diverges[OF s _ _ len byte]) simp_all
qed

lemma swapCall_deadline_slot:
  assumes "swapCallParameters validateAndParseAddress rnd pos now trade options caller =
             Some (Inr sp, pos')"
  shows "args sp ! (length (args sp) - 2) = Scalar (deadlineArg now (expiry options))"
proof -
  from swapCall_returns_inversion[OF assms] obtain key to raw where
    "tableCall (tradeType trade) (inputIsETHER trade) (outputIsETHER trade)
       (Boolean (feeOnTransfer options)) (toHex raw) (map address (routePath trade))
       to (deadlineArg now (expiry options)) (toHexString key) = Some sp" by blast
  from tableCall_shape[OF this] obtain name slots native where t:
    "decisionTable (tradeType trade) (inputIsETHER trade) (outputIsETHER trade)
       (Boolean (feeOnTransfer options)) = Some (name, slots, native)"
    "args sp = map (encodeSlot (toHex raw) (map address (routePath trade)) to
                 (deadlineArg now (expiry options))) slots @ [Scalar (toHexString key)]"
    by blast
  have len: "0 < length slots" using decisionTable_rows(2)[OF t(1)] by (simp split: if_splits)
  have "slots ! (length slots - 1) = DeadlineArg" by (rule decisionTable_rows(3)[OF t(1)])
  with len show ?thesis by (simp add: t(2) nth_append)
qed

lemma row_trade [simp]:
  "tradeType (rowTrade dir etherIn etherOut amount) = dir"
  "inputIsETHER (rowTrade dir etherIn etherOut amount) = etherIn"
  "outputIsETHER (rowTrade dir etherIn etherOut amount) = etherOut"
  "bothNative (rowTrade dir etherIn etherOut amount) = (etherIn \<and> etherOut)"
  "maximumAmountIn (rowTrade dir etherIn etherOut amount) slippage = Inr amount"
  "map address (routePath (rowTrade dir etherIn etherOut amount)) =
     [''0x1f9840a85d5af5bf1d1762f925bdaddc4201f984'',
      ''0x6b175474e89094c44da98b954eedeac495271d0f'']"
  by (simp_all add: rowTrade_def sampleTrade_def bothNative_def)

lemma row_options [simp]:
  "feeRequested (rowOptions fee) = (fee = Some True)"
  "expiry (rowOptions fee) = Ttl 1200"
  "ttlNotPositive (rowOptions fee) = False"
  "recipient (rowOptions fee) = ''0x52908400098527886e0f7030069857d2e4169ee7''"
  by (simp_all add: rowOptions_def sampleOptions_def ttlNotPositive_def feeRequested_def)

lemma row_values:
  "sampleValidate ''0x52908400098527886e0f7030069857d2e4169ee7'' =
     Inr ''0x52908400098527886e0f7030069857d2e4169ee7''"
  "deadlineArg sampleNow (Ttl 1200) = ''0x6553f5b0''"
  "toHexString key1047 = ''0x1000000000000000000000000000000000000047''"
  by code_simp+

section \<open>The challenge key\<close>

text \<open>
  C2. Whatever \<open>resolveChallenge\<close> returns for a signer lies in the admissible range of
  the signer's parity: in \<open>[signer + 1, 2 ^ 160 - 1]\<close> for an even signer, in
  \<open>[0, signer - 1]\<close> for an odd one. So the key is never the signer itself.
\<close>

theorem resolveChallenge_range:
  assumes "bigNumberFrom signerAddress = Inr signer"
      and "resolveChallenge rnd pos signerAddress = Some (Inr key, pos')"
  shows "specAdmissible signer key \<and> key \<noteq> signer"
proof -
  from resolveChallenge_Some[OF assms] have "resolved signerAddress (limits signer) key" by auto
  then have "specAdmissible signer key"
    using resolved_betweenLimits betweenLimits_admissible by blast
  moreover from this have "key \<noteq> signer"
    by (auto simp: specAdmissible_def split: if_splits)
  ultimately show ?thesis ..
qed

theorem resolveChallenge_range_witness:
  "bigNumberFrom callerEven = Inr 2
   \<and> resolveChallenge draw1047 0 callerEven = Some (Inr key1047, 40)
   \<and> 3 \<le> key1047 \<and> key1047 \<le> 2 ^ 160 - 1 \<and> key1047 \<noteq> 2
   \<and> bigNumberFrom callerOdd = Inr 0xf000000000000000000000000000000000000003
   \<and> resolveChallenge draw1046 0 callerOdd = Some (Inr key1046, 40)
   \<and> 0 \<le> key1046 \<and> key1046 \<le> 0xf000000000000000000000000000000000000002
   \<and> key1046 \<noteq> 0xf000000000000000000000000000000000000003"
proof -
  have e: "bigNumberFrom callerEven = Inr 2" by code_simp
  have o: "bigNumberFrom callerOdd = Inr 0xf000000000000000000000000000000000000003"
    by code_simp
  from resolveChallenge_range[OF e callerEven_run] resolveChallenge_range[OF o callerOdd_run]
  show ?thesis using e o callerEven_run callerOdd_run by (simp add: specAdmissible_def)
qed

text \<open>
  C3. The claim is that the last byte of the XOR of the signer with the key, written with
  forty zero-padded digits, is 69 for every returned key. For a key of twenty bytes the
  source computes this byte (\<open>resolved_long_key\<close>). But it pads the key's
  \<^verbatim>\<open>0x\<close>-prefixed string to forty characters, not its digits to forty digits, so a key
  below \<open>2 ^ 152\<close> is decoded to fewer than twenty bytes and the last byte of the signer
  is compared with 69 alone (\<open>resolved_short_key\<close>). For a signer ending in \<^verbatim>\<open>45\<close> the
  candidate \<^verbatim>\<open>0x00aa...aa\<close> is returned although the byte of the claim is 239.
\<close>

theorem resolveChallenge_xor_failing_input:
  "isAddress callerEnds45
   \<and> resolveChallenge draw00aa 0 callerEnds45 = Some (Inr key00aa, 40)
   \<and> specLastByte callerEnds45 key00aa = 239"
  by code_simp

text \<open>
  C8. The claim is that \<open>resolveChallenge\<close> returns once the random source yields a
  candidate in the admissible range whose XOR byte is 69. For an odd signer below
  \<open>2 ^ 152\<close> every candidate in range is below \<open>2 ^ 152\<close> too, and the source then compares
  the signer's own last byte with 69: for the address below the candidate
  \<^verbatim>\<open>0x00aa...aa62\<close> satisfies both predicates of the specification, and the loop never
  ends, whatever the random source.
\<close>

theorem resolveChallenge_hangs_failing_input:
  "isAddress callerLeadingZero
   \<and> bigNumberFrom callerLeadingZero = Inr 0x00d5b2e8a9945ae3b3fb1c2568a5b1e5f4a0b127
   \<and> specAdmissible 0x00d5b2e8a9945ae3b3fb1c2568a5b1e5f4a0b127 key00aa62
   \<and> specLastByte callerLeadingZero key00aa62 = 69
   \<and> (\<forall>rnd pos. resolveChallenge rnd pos callerLeadingZero = None)"
proof -
  have a: "isAddress callerLeadingZero" by code_simp
  have s: "bigNumberFrom callerLeadingZero = Inr 0x00d5b2e8a9945ae3b3fb1c2568a5b1e5f4a0b127"
    by code_simp
  have adm: "specAdmissible 0x00d5b2e8a9945ae3b3fb1c2568a5b1e5f4a0b127 key00aa62"
    by code_simp
  have b: "specLastByte callerLeadingZero key00aa62 = 69" by code_simp
  have len: "length (bufferFromHex (drop 2 callerLeadingZero)) = 20" by code_simp
  have byte: "uint (bufferFromHex (drop 2 callerLeadingZero) ! 19) \<noteq> GOAL" by code_simp
  have "resolveChallenge rnd pos callerLeadingZero = None" for rnd pos
    by (rule resolveChallenge_diverges[OF s _ _ len byte]) simp_all
  with a s adm b show ?thesis by blast
qed

section \<open>The call parameters\<close>

text \<open>
  C1, as stated: for every valid trade input \<open>swapCallParameters\<close> returns the row of
  the decision table. It returns nothing when the challenge search does not end: with the
  trade, options and recipient of the sample, all valid, the call never returns for the
  caller \<^verbatim>\<open>0x00...02\<close> under a random source that only yields zeros, nor for the caller
  of C8 under any random source.
\<close>

theorem valid_input_without_return_counterexample:
  "isAddress callerEven \<and> isAddress callerLeadingZero
   \<and> \<not> bothNative sampleTrade \<and> \<not> ttlNotPositive sampleOptions
   \<and> \<not> (tradeType sampleTrade = EXACT_OUTPUT \<and> feeRequested sampleOptions)
   \<and> sampleValidate (recipient sampleOptions) =
       Inr ''0x52908400098527886e0f7030069857d2e4169ee7''
   \<and> maximumAmountIn sampleTrade (allowedSlippage sampleOptions) = Inr 100
   \<and> swapCallParameters sampleValidate drawZero 0 sampleNow sampleTrade sampleOptions
       callerEven = None
   \<and> swapCallParameters sampleValidate draw1047 0 sampleNow sampleTrade sampleOptions
       callerLeadingZero = None"
proof -
  have a: "isAddress callerEven" "isAddress callerLeadingZero" by code_simp+
  have v: "\<not> bothNative sampleTrade" "\<not> ttlNotPositive sampleOptions"
    "\<not> (tradeType sampleTrade = EXACT_OUTPUT \<and> feeRequested sampleOptions)" by code_simp+
  have 1: "swapCallParameters sampleValidate drawZero 0 sampleNow sampleTrade sampleOptions
             callerEven = None"
    by (rule swapCall_diverges) (rule drawZero_hangs)
  have 2: "swapCallParameters sampleValidate draw1047 0 sampleNow sampleTrade sampleOptions
             callerLeadingZero = None"
    by (rule swapCall_diverges) (rule leading_zero_hangs)
  from a v sample_recipient sample_amount 1 2 show ?thesis by blast
qed

text \<open>
  C1, amended. Once the challenge search has returned a key, for every valid input (not
  both legs native, no time-to-live that is zero or negative, a recipient the validator
  accepts, a maximum input that is computed, and no fee-on-transfer with an exact-output
  trade), \<open>swapCallParameters\<close> returns the row of the decision table for the trade's
  direction, native legs and fee request: its method, its arguments in its order followed
  by the hex-encoded challenge key, and as value the encoded maximum input when the input
  leg is native and \<^verbatim>\<open>0x0\<close> otherwise. The amount is encoded as the hex scalar of the
  glossary, the key as its hex scalar with a leading zero when the digits are odd in
  number. The witness runs the nine rows.
\<close>

theorem swapCallParameters_decision_table:
  assumes "resolveChallenge rnd pos caller = Some (Inr key, pos')"
      and "\<not> bothNative trade" and "\<not> ttlNotPositive options"
      and "validateAndParseAddress (recipient options) = Inr to"
      and "maximumAmountIn trade (allowedSlippage options) = Inr raw"
      and "\<not> (tradeType trade = EXACT_OUTPUT \<and> feeRequested options)"
  shows "\<exists>name slots native.
           decisionTable (tradeType trade) (inputIsETHER trade) (outputIsETHER trade)
             (feeRequested options) = Some (name, slots, native)
         \<and> swapCallParameters validateAndParseAddress rnd pos now trade options caller =
             Some (Inr \<lparr>methodName = name,
                        args = map (encodeSlot (toHex raw) (map address (routePath trade)) to
                                      (deadlineArg now (expiry options))) slots
                               @ [Scalar (toHexString key)],
                        value = (if inputIsETHER trade then toHex raw else ''0x0'')\<rparr>,
                   pos')
         \<and> (native = SendAmountIn) = inputIsETHER trade
         \<and> (0 \<le> raw \<longrightarrow> toHex raw = hexScalar raw)
         \<and> (toHexString key = hexScalar key \<or> toHexString key = ''0x0'' @ drop 2 (hexScalar key))"
proof -
  have fee: "Boolean (feeOnTransfer options) = feeRequested options"
    by (cases "feeOnTransfer options") (auto simp: Boolean_def feeRequested_def)
  have nf: "\<not> exactOutWithFee trade options"
    using assms(6) by (simp add: exactOutWithFee_def fee)
  from swapCall_returns[where validateAndParseAddress = validateAndParseAddress,
         OF assms(1) assms(2) assms(3) assms(4) assms(5) nf, of now]
  obtain sp where sp:
    "tableCall (tradeType trade) (inputIsETHER trade) (outputIsETHER trade)
       (feeRequested options) (toHex raw) (map address (routePath trade))
       to (deadlineArg now (expiry options)) (toHexString key) = Some sp"
    "swapCallParameters validateAndParseAddress rnd pos now trade options caller =
       Some (Inr sp, pos')" unfolding fee by blast
  from tableCall_shape[OF sp(1)] obtain name slots native where t:
    "decisionTable (tradeType trade) (inputIsETHER trade) (outputIsETHER trade)
       (feeRequested options) = Some (name, slots, native)"
    "methodName sp = name"
    "args sp = map (encodeSlot (toHex raw) (map address (routePath trade)) to
                 (deadlineArg now (expiry options))) slots @ [Scalar (toHexString key)]"
    "value sp = (case native of SendAmountIn \<Rightarrow> toHex raw | SendZero \<Rightarrow> ''0x0'')"
    by blast
  have n: "(native = SendAmountIn) = inputIsETHER trade" by (rule decisionTable_rows(1)[OF t(1)])
  then have "value sp = (if inputIsETHER trade then toHex raw else ''0x0'')"
    using t(4) by (cases native) auto
  with t have "sp = \<lparr>methodName = name,
                        args = map (encodeSlot (toHex raw) (map address (routePath trade)) to
                                      (deadlineArg now (expiry options))) slots
                               @ [Scalar (toHexString key)],
                        value = (if inputIsETHER trade then toHex raw else ''0x0'')\<rparr>"
    by (cases sp) simp
  moreover have "0 \<le> raw \<longrightarrow> toHex raw = hexScalar raw"
    by (simp add: toHex_def toString16_def hexScalar_def hexDigitsAcc_digits16)
  moreover have "0 \<le> key" by (rule resolveChallenge_nonneg[OF assms(1)])
  then have "toHexString key = hexScalar key \<or>
             toHexString key = ''0x0'' @ drop 2 (hexScalar key)"
    by (simp add: toHexString_def Let_def hexScalar_def hexDigitsAcc_digits16)
  ultimately show ?thesis using sp(2) t(1) n by blast
qed

theorem swapCallParameters_decision_table_witness:
  "resolveChallenge draw1047 0 callerEven = Some (Inr key1047, 40)
   \<and> hexScalar key1047 = ''0x1000000000000000000000000000000000000047''
   \<and> map hexScalar [100, 255, 4096, 1, 1000000, 0, 65535, 16, 291] =
       [''0x64'', ''0xff'', ''0x1000'', ''0x1'', ''0xf4240'', ''0x0'', ''0xffff'', ''0x10'',
        ''0x123'']
   \<and> swapCallParameters sampleValidate draw1047 0 sampleNow (rowTrade EXACT_INPUT True False 100)
       (rowOptions None) callerEven =
     Some (Inr \<lparr>methodName = ''swapExactETHForTokens'',
             args = [Scalar ''0x0'', 
                     AddressList [''0x1f9840a85d5af5bf1d1762f925bdaddc4201f984'',
                                  ''0x6b175474e89094c44da98b954eedeac495271d0f''],
                     Scalar ''0x52908400098527886e0f7030069857d2e4169ee7'',
                     Scalar ''0x6553f5b0'',
                     Scalar ''0x1000000000000000000000000000000000000047''],
             value = ''0x64''\<rparr>, 40)
   \<and> swapCallParameters sampleValidate draw1047 0 sampleNow (rowTrade EXACT_INPUT True False 255)
       (rowOptions (Some True)) callerEven =
     Some (Inr \<lparr>methodName = ''swapExactETHForTokensSupportingFeeOnTransferTokens'',
             args = [Scalar ''0x0'', 
                     AddressList [''0x1f9840a85d5af5bf1d1762f925bdaddc4201f984'',
                                  ''0x6b175474e89094c44da98b954eedeac495271d0f''],
                     Scalar ''0x52908400098527886e0f7030069857d2e4169ee7'',
                     Scalar ''0x6553f5b0'',
                     Scalar ''0x1000000000000000000000000000000000000047''],
             value = ''0xff''\<rparr>, 40)
   \<and> swapCallParameters sampleValidate draw1047 0 sampleNow (rowTrade EXACT_INPUT False True 4096)
       (rowOptions (Some False)) callerEven =
     Some (Inr \<lparr>methodName = ''swapExactTokensForETH'',
             args = [Scalar ''0x1000'', Scalar ''0x0'', 
                     AddressList [''0x1f9840a85d5af5bf1d1762f925bdaddc4201f984'',
                                  ''0x6b175474e89094c44da98b954eedeac495271d0f''],
                     Scalar ''0x52908400098527886e0f7030069857d2e4169ee7'',
                     Scalar ''0x6553f5b0'',
                     Scalar ''0x1000000000000000000000000000000000000047''],
             value = ''0x0''\<rparr>, 40)
   \<and> swapCallParameters sampleValidate draw1047 0 sampleNow (rowTrade EXACT_INPUT False True 1)
       (rowOptions (Some True)) callerEven =
     Some (Inr \<lparr>methodName = ''swapExactTokensForETHSupportingFeeOnTransferTokens'',
             args = [Scalar ''0x1'', Scalar ''0x0'', 
                     AddressList [''0x1f9840a85d5af5bf1d1762f925bdaddc4201f984'',
                                  ''0x6b175474e89094c44da98b954eedeac495271d0f''],
                     Scalar ''0x52908400098527886e0f7030069857d2e4169ee7'',
                     Scalar ''0x6553f5b0'',
                     Scalar ''0x1000000000000000000000000000000000000047''],
             value = ''0x0''\<rparr>, 40)
   \<and> swapCallParameters sampleValidate draw1047 0 sampleNow (rowTrade EXACT_INPUT False False 1000000)
       (rowOptions None) callerEven =
     Some (Inr \<lparr>methodName = ''swapExactTokensForTokens'',
             args = [Scalar ''0xf4240'', Scalar ''0x0'', 
                     AddressList [''0x1f9840a85d5af5bf1d1762f925bdaddc4201f984'',
                                  ''0x6b175474e89094c44da98b954eedeac495271d0f''],
                     Scalar ''0x52908400098527886e0f7030069857d2e4169ee7'',
                     Scalar ''0x6553f5b0'',
                     Scalar ''0x1000000000000000000000000000000000000047''],
             value = ''0x0''\<rparr>, 40)
   \<and> swapCallParameters sampleValidate draw1047 0 sampleNow (rowTrade EXACT_INPUT False False 0)
       (rowOptions (Some True)) callerEven =
     Some (Inr \<lparr>methodName = ''swapExactTokensForTokensSupportingFeeOnTransferTokens'',
             args = [Scalar ''0x0'', Scalar ''0x0'', 
                     AddressList [''0x1f9840a85d5af5bf1d1762f925bdaddc4201f984'',
                                  ''0x6b175474e89094c44da98b954eedeac495271d0f''],
                     Scalar ''0x52908400098527886e0f7030069857d2e4169ee7'',
                     Scalar ''0x6553f5b0'',
                     Scalar ''0x1000000000000000000000000000000000000047''],
             value = ''0x0''\<rparr>, 40)
   \<and> swapCallParameters sampleValidate draw1047 0 sampleNow (rowTrade EXACT_OUTPUT True False 65535)
       (rowOptions None) callerEven =
     Some (Inr \<lparr>methodName = ''swapETHForExactTokens'',
             args = [Scalar ''0x0'', 
                     AddressList [''0x1f9840a85d5af5bf1d1762f925bdaddc4201f984'',
                                  ''0x6b175474e89094c44da98b954eedeac495271d0f''],
                     Scalar ''0x52908400098527886e0f7030069857d2e4169ee7'',
                     Scalar ''0x6553f5b0'',
                     Scalar ''0x1000000000000000000000000000000000000047''],
             value = ''0xffff''\<rparr>, 40)
   \<and> swapCallParameters sampleValidate draw1047 0 sampleNow (rowTrade EXACT_OUTPUT False True 16)
       (rowOptions (Some False)) callerEven =
     Some (Inr \<lparr>methodName = ''swapTokensForExactETH'',
             args = [Scalar ''0x0'', Scalar ''0x10'', 
                     AddressList [''0x1f9840a85d5af5bf1d1762f925bdaddc4201f984'',
                                  ''0x6b175474e89094c44da98b954eedeac495271d0f''],
                     Scalar ''0x52908400098527886e0f7030069857d2e4169ee7'',
                     Scalar ''0x6553f5b0'',
                     Scalar ''0x1000000000000000000000000000000000000047''],
             value = ''0x0''\<rparr>, 40)
   \<and> swapCallParameters sampleValidate draw1047 0 sampleNow (rowTrade EXACT_OUTPUT False False 291)
       (rowOptions None) callerEven =
     Some (Inr \<lparr>methodName = ''swapTokensForExactTokens'',
             args = [Scalar ''0x0'', Scalar ''0x123'', 
                     AddressList [''0x1f9840a85d5af5bf1d1762f925bdaddc4201f984'',
                                  ''0x6b175474e89094c44da98b954eedeac495271d0f''],
                     Scalar ''0x52908400098527886e0f7030069857d2e4169ee7'',
                     Scalar ''0x6553f5b0'',
                     Scalar ''0x1000000000000000000000000000000000000047''],
             value = ''0x0''\<rparr>, 40)"
proof -
  note t = swapCallParameters_decision_table
             [where validateAndParseAddress = sampleValidate and now = sampleNow,
              OF sample_challenge]
  have h: "map hexScalar [100, 255, 4096, 1, 1000000, 0, 65535, 16, 291] =
       [''0x64'', ''0xff'', ''0x1000'', ''0x1'', ''0xf4240'', ''0x0'', ''0xffff'', ''0x10'',
        ''0x123'']" by code_simp
  have k: "hexScalar key1047 = ''0x1000000000000000000000000000000000000047''" by code_simp
  have run1:
    "swapCallParameters sampleValidate draw1047 0 sampleNow (rowTrade EXACT_INPUT True False 100)
           (rowOptions None) callerEven =
         Some (Inr \<lparr>methodName = ''swapExactETHForTokens'',
                 args = [Scalar ''0x0'', 
                         AddressList [''0x1f9840a85d5af5bf1d1762f925bdaddc4201f984'',
                                      ''0x6b175474e89094c44da98b954eedeac495271d0f''],
                         Scalar ''0x52908400098527886e0f7030069857d2e4169ee7'',
                         Scalar ''0x6553f5b0'',
                         Scalar ''0x1000000000000000000000000000000000000047''],
                 value = ''0x64''\<rparr>, 40)"
    by code_simp
  from t[of "rowTrade EXACT_INPUT True False 100" "rowOptions None"] h
  have row1:
    "swapCallParameters sampleValidate draw1047 0 sampleNow (rowTrade EXACT_INPUT True False 100)
           (rowOptions None) callerEven =
         Some (Inr \<lparr>methodName = ''swapExactETHForTokens'',
                 args = [Scalar ''0x0'', 
                         AddressList [''0x1f9840a85d5af5bf1d1762f925bdaddc4201f984'',
                                      ''0x6b175474e89094c44da98b954eedeac495271d0f''],
                         Scalar ''0x52908400098527886e0f7030069857d2e4169ee7'',
                         Scalar ''0x6553f5b0'',
                         Scalar ''0x1000000000000000000000000000000000000047''],
                 value = ''0x64''\<rparr>, 40)"
    by (simp add: row_values)
  have run2:
    "swapCallParameters sampleValidate draw1047 0 sampleNow (rowTrade EXACT_INPUT True False 255)
           (rowOptions (Some True)) callerEven =
         Some (Inr \<lparr>methodName = ''swapExactETHForTokensSupportingFeeOnTransferTokens'',
                 args = [Scalar ''0x0'', 
                         AddressList [''0x1f9840a85d5af5bf1d1762f925bdaddc4201f984'',
                                      ''0x6b175474e89094c44da98b954eedeac495271d0f''],
                         Scalar ''0x52908400098527886e0f7030069857d2e4169ee7'',
                         Scalar ''0x6553f5b0'',
                         Scalar ''0x1000000000000000000000000000000000000047''],
                 value = ''0xff''\<rparr>, 40)"
    by code_simp
  from t[of "rowTrade EXACT_INPUT True False 255" "rowOptions (Some True)"] h
  have row2:
    "swapCallParameters sampleValidate draw1047 0 sampleNow (rowTrade EXACT_INPUT True False 255)
           (rowOptions (Some True)) callerEven =
         Some (Inr \<lparr>methodName = ''swapExactETHForTokensSupportingFeeOnTransferTokens'',
                 args = [Scalar ''0x0'', 
                         AddressList [''0x1f9840a85d5af5bf1d1762f925bdaddc4201f984'',
                                      ''0x6b175474e89094c44da98b954eedeac495271d0f''],
                         Scalar ''0x52908400098527886e0f7030069857d2e4169ee7'',
                         Scalar ''0x6553f5b0'',
                         Scalar ''0x1000000000000000000000000000000000000047''],
                 value = ''0xff''\<rparr>, 40)"
    by (simp add: row_values)
  have run3:
    "swapCallParameters sampleValidate draw1047 0 sampleNow (rowTrade EXACT_INPUT False True 4096)
           (rowOptions (Some False)) callerEven =
         Some (Inr \<lparr>methodName = ''swapExactTokensForETH'',
                 args = [Scalar ''0x1000'', Scalar ''0x0'', 
                         AddressList [''0x1f9840a85d5af5bf1d1762f925bdaddc4201f984'',
                                      ''0x6b175474e89094c44da98b954eedeac495271d0f''],
                         Scalar ''0x52908400098527886e0f7030069857d2e4169ee7'',
                         Scalar ''0x6553f5b0'',
                         Scalar ''0x1000000000000000000000000000000000000047''],
                 value = ''0x0''\<rparr>, 40)"
    by code_simp
  from t[of "rowTrade EXACT_INPUT False True 4096" "rowOptions (Some False)"] h
  have row3:
    "swapCallParameters sampleValidate draw1047 0 sampleNow (rowTrade EXACT_INPUT False True 4096)
           (rowOptions (Some False)) callerEven =
         Some (Inr \<lparr>methodName = ''swapExactTokensForETH'',
                 args = [Scalar ''0x1000'', Scalar ''0x0'', 
                         AddressList [''0x1f9840a85d5af5bf1d1762f925bdaddc4201f984'',
                                      ''0x6b175474e89094c44da98b954eedeac495271d0f''],
                         Scalar ''0x52908400098527886e0f7030069857d2e4169ee7'',
                         Scalar ''0x6553f5b0'',
                         Scalar ''0x1000000000000000000000000000000000000047''],
                 value = ''0x0''\<rparr>, 40)"
    by (simp add: row_values)
  have run4:
    "swapCallParameters sampleValidate draw1047 0 sampleNow (rowTrade EXACT_INPUT False True 1)
           (rowOptions (Some True)) callerEven =
         Some (Inr \<lparr>methodName = ''swapExactTokensForETHSupportingFeeOnTransferTokens'',
                 args = [Scalar ''0x1'', Scalar ''0x0'', 
                         AddressList [''0x1f9840a85d5af5bf1d1762f925bdaddc4201f984'',
                                      ''0x6b175474e89094c44da98b954eedeac495271d0f''],
                         Scalar ''0x52908400098527886e0f7030069857d2e4169ee7'',
                         Scalar ''0x6553f5b0'',
                         Scalar ''0x1000000000000000000000000000000000000047''],
                 value = ''0x0''\<rparr>, 40)"
    by code_simp
  from t[of "rowTrade EXACT_INPUT False True 1" "rowOptions (Some True)"] h
  have row4:
    "swapCallParameters sampleValidate draw1047 0 sampleNow (rowTrade EXACT_INPUT False True 1)
           (rowOptions (Some True)) callerEven =
         Some (Inr \<lparr>methodName = ''swapExactTokensForETHSupportingFeeOnTransferTokens'',
                 args = [Scalar ''0x1'', Scalar ''0x0'', 
                         AddressList [''0x1f9840a85d5af5bf1d1762f925bdaddc4201f984'',
                                      ''0x6b175474e89094c44da98b954eedeac495271d0f''],
                         Scalar ''0x52908400098527886e0f7030069857d2e4169ee7'',
                         Scalar ''0x6553f5b0'',
                         Scalar ''0x1000000000000000000000000000000000000047''],
                 value = ''0x0''\<rparr>, 40)"
    by (simp add: row_values)
  have run5:
    "swapCallParameters sampleValidate draw1047 0 sampleNow (rowTrade EXACT_INPUT False False 1000000)
           (rowOptions None) callerEven =
         Some (Inr \<lparr>methodName = ''swapExactTokensForTokens'',
                 args = [Scalar ''0xf4240'', Scalar ''0x0'', 
                         AddressList [''0x1f9840a85d5af5bf1d1762f925bdaddc4201f984'',
                                      ''0x6b175474e89094c44da98b954eedeac495271d0f''],
                         Scalar ''0x52908400098527886e0f7030069857d2e4169ee7'',
                         Scalar ''0x6553f5b0'',
                         Scalar ''0x1000000000000000000000000000000000000047''],
                 value = ''0x0''\<rparr>, 40)"
    by code_simp
  from t[of "rowTrade EXACT_INPUT False False 1000000" "rowOptions None"] h
  have row5:
    "swapCallParameters sampleValidate draw1047 0 sampleNow (rowTrade EXACT_INPUT False False 1000000)
           (rowOptions None) callerEven =
         Some (Inr \<lparr>methodName = ''swapExactTokensForTokens'',
                 args = [Scalar ''0xf4240'', Scalar ''0x0'', 
                         AddressList [''0x1f9840a85d5af5bf1d1762f925bdaddc4201f984'',
                                      ''0x6b175474e89094c44da98b954eedeac495271d0f''],
                         Scalar ''0x52908400098527886e0f7030069857d2e4169ee7'',
                         Scalar ''0x6553f5b0'',
                         Scalar ''0x1000000000000000000000000000000000000047''],
                 value = ''0x0''\<rparr>, 40)"
    by (simp add: row_values)
  have run6:
    "swapCallParameters sampleValidate draw1047 0 sampleNow (rowTrade EXACT_INPUT False False 0)
           (rowOptions (Some True)) callerEven =
         Some (Inr \<lparr>methodName = ''swapExactTokensForTokensSupportingFeeOnTransferTokens'',
                 args = [Scalar ''0x0'', Scalar ''0x0'', 
                         AddressList [''0x1f9840a85d5af5bf1d1762f925bdaddc4201f984'',
                                      ''0x6b175474e89094c44da98b954eedeac495271d0f''],
                         Scalar ''0x52908400098527886e0f7030069857d2e4169ee7'',
                         Scalar ''0x6553f5b0'',
                         Scalar ''0x1000000000000000000000000000000000000047''],
                 value = ''0x0''\<rparr>, 40)"
    by code_simp
  from t[of "rowTrade EXACT_INPUT False False 0" "rowOptions (Some True)"] h
  have row6:
    "swapCallParameters sampleValidate draw1047 0 sampleNow (rowTrade EXACT_INPUT False False 0)
           (rowOptions (Some True)) callerEven =
         Some (Inr \<lparr>methodName = ''swapExactTokensForTokensSupportingFeeOnTransferTokens'',
                 args = [Scalar ''0x0'', Scalar ''0x0'', 
                         AddressList [''0x1f9840a85d5af5bf1d1762f925bdaddc4201f984'',
                                      ''0x6b175474e89094c44da98b954eedeac495271d0f''],
                         Scalar ''0x52908400098527886e0f7030069857d2e4169ee7'',
                         Scalar ''0x6553f5b0'',
                         Scalar ''0x1000000000000000000000000000000000000047''],
                 value = ''0x0''\<rparr>, 40)"
    by (simp add: row_values)
  have run7:
    "swapCallParameters sampleValidate draw1047 0 sampleNow (rowTrade EXACT_OUTPUT True False 65535)
           (rowOptions None) callerEven =
         Some (Inr \<lparr>methodName = ''swapETHForExactTokens'',
                 args = [Scalar ''0x0'', 
                         AddressList [''0x1f9840a85d5af5bf1d1762f925bdaddc4201f984'',
                                      ''0x6b175474e89094c44da98b954eedeac495271d0f''],
                         Scalar ''0x52908400098527886e0f7030069857d2e4169ee7'',
                         Scalar ''0x6553f5b0'',
                         Scalar ''0x1000000000000000000000000000000000000047''],
                 value = ''0xffff''\<rparr>, 40)"
    by code_simp
  from t[of "rowTrade EXACT_OUTPUT True False 65535" "rowOptions None"] h
  have row7:
    "swapCallParameters sampleValidate draw1047 0 sampleNow (rowTrade EXACT_OUTPUT True False 65535)
           (rowOptions None) callerEven =
         Some (Inr \<lparr>methodName = ''swapETHForExactTokens'',
                 args = [Scalar ''0x0'', 
                         AddressList [''0x1f9840a85d5af5bf1d1762f925bdaddc4201f984'',
                                      ''0x6b175474e89094c44da98b954eedeac495271d0f''],
                         Scalar ''0x52908400098527886e0f7030069857d2e4169ee7'',
                         Scalar ''0x6553f5b0'',
                         Scalar ''0x1000000000000000000000000000000000000047''],
                 value = ''0xffff''\<rparr>, 40)"
    by (simp add: row_values)
  have run8:
    "swapCallParameters sampleValidate draw1047 0 sampleNow (rowTrade EXACT_OUTPUT False True 16)
           (rowOptions (Some False)) callerEven =
         Some (Inr \<lparr>methodName = ''swapTokensForExactETH'',
                 args = [Scalar ''0x0'', Scalar ''0x10'', 
                         AddressList [''0x1f9840a85d5af5bf1d1762f925bdaddc4201f984'',
                                      ''0x6b175474e89094c44da98b954eedeac495271d0f''],
                         Scalar ''0x52908400098527886e0f7030069857d2e4169ee7'',
                         Scalar ''0x6553f5b0'',
                         Scalar ''0x1000000000000000000000000000000000000047''],
                 value = ''0x0''\<rparr>, 40)"
    by code_simp
  from t[of "rowTrade EXACT_OUTPUT False True 16" "rowOptions (Some False)"] h
  have row8:
    "swapCallParameters sampleValidate draw1047 0 sampleNow (rowTrade EXACT_OUTPUT False True 16)
           (rowOptions (Some False)) callerEven =
         Some (Inr \<lparr>methodName = ''swapTokensForExactETH'',
                 args = [Scalar ''0x0'', Scalar ''0x10'', 
                         AddressList [''0x1f9840a85d5af5bf1d1762f925bdaddc4201f984'',
                                      ''0x6b175474e89094c44da98b954eedeac495271d0f''],
                         Scalar ''0x52908400098527886e0f7030069857d2e4169ee7'',
                         Scalar ''0x6553f5b0'',
                         Scalar ''0x1000000000000000000000000000000000000047''],
                 value = ''0x0''\<rparr>, 40)"
    by (simp add: row_values)
  have run9:
    "swapCallParameters sampleValidate draw1047 0 sampleNow (rowTrade EXACT_OUTPUT False False 291)
           (rowOptions None) callerEven =
         Some (Inr \<lparr>methodName = ''swapTokensForExactTokens'',
                 args = [Scalar ''0x0'', Scalar ''0x123'', 
                         AddressList [''0x1f9840a85d5af5bf1d1762f925bdaddc4201f984'',
                                      ''0x6b175474e89094c44da98b954eedeac495271d0f''],
                         Scalar ''0x52908400098527886e0f7030069857d2e4169ee7'',
                         Scalar ''0x6553f5b0'',
                         Scalar ''0x1000000000000000000000000000000000000047''],
                 value = ''0x0''\<rparr>, 40)"
    by code_simp
  from t[of "rowTrade EXACT_OUTPUT False False 291" "rowOptions None"] h
  have row9:
    "swapCallParameters sampleValidate draw1047 0 sampleNow (rowTrade EXACT_OUTPUT False False 291)
           (rowOptions None) callerEven =
         Some (Inr \<lparr>methodName = ''swapTokensForExactTokens'',
                 args = [Scalar ''0x0'', Scalar ''0x123'', 
                         AddressList [''0x1f9840a85d5af5bf1d1762f925bdaddc4201f984'',
                                      ''0x6b175474e89094c44da98b954eedeac495271d0f''],
                         Scalar ''0x52908400098527886e0f7030069857d2e4169ee7'',
                         Scalar ''0x6553f5b0'',
                         Scalar ''0x1000000000000000000000000000000000000047''],
                 value = ''0x0''\<rparr>, 40)"
    by (simp add: row_values)
  from sample_challenge h k run1 run2 run3 run4 run5 run6 run7 run8 run9
    row1 row2 row3 row4 row5 row6 row7 row8 row9
  show ?thesis by blast
qed

text \<open>
  C4. Whenever \<open>swapCallParameters\<close> returns, the argument it fills from \<^verbatim>\<open>amountOut\<close>
  (the minimum output of an exact-input call, the output of an exact-output call) is the
  zero scalar \<^verbatim>\<open>0x0\<close>, whatever the slippage tolerance of the options.
\<close>

theorem swapCallParameters_min_out_zero:
  assumes "swapCallParameters validateAndParseAddress rnd pos now trade options caller =
             Some (Inr sp, pos')"
  shows "args sp ! amountOutIndex trade = Scalar ''0x0''"
proof -
  from swapCall_returns_inversion[OF assms] obtain key to raw where
    "tableCall (tradeType trade) (inputIsETHER trade) (outputIsETHER trade)
       (Boolean (feeOnTransfer options)) (toHex raw) (map address (routePath trade))
       to (deadlineArg now (expiry options)) (toHexString key) = Some sp" by blast
  from tableCall_shape[OF this] obtain name slots native where t:
    "decisionTable (tradeType trade) (inputIsETHER trade) (outputIsETHER trade)
       (Boolean (feeOnTransfer options)) = Some (name, slots, native)"
    "args sp = map (encodeSlot (toHex raw) (map address (routePath trade)) to
                 (deadlineArg now (expiry options))) slots @ [Scalar (toHexString key)]"
    by blast
  have len: "amountOutIndex trade < length slots"
    using decisionTable_rows(2)[OF t(1)] by (simp add: amountOutIndex_def)
  have "slots ! amountOutIndex trade \<in> {MinOut, AmountOut}"
    using decisionTable_rows(4)[OF t(1)] by (simp add: amountOutIndex_def)
  then have "encodeSlot (toHex raw) (map address (routePath trade)) to
               (deadlineArg now (expiry options)) (slots ! amountOutIndex trade) = Scalar ''0x0''"
    by auto
  with len show ?thesis by (simp add: t(2) nth_append)
qed

theorem swapCallParameters_min_out_zero_witness:
  "swapCallParameters sampleValidate draw1047 0 sampleNow sampleTrade sampleOptions callerEven =
     Some (Inr \<lparr>methodName = ''swapExactTokensForTokens'',
                args = [Scalar ''0x64'', Scalar ''0x0'',
                        AddressList [''0x1f9840a85d5af5bf1d1762f925bdaddc4201f984'',
                                     ''0x6b175474e89094c44da98b954eedeac495271d0f''],
                        Scalar ''0x52908400098527886e0f7030069857d2e4169ee7'',
                        Scalar ''0x6553f5b0'',
                        Scalar ''0x1000000000000000000000000000000000000047''],
                value = ''0x0''\<rparr>, 40)
   \<and> amountOutIndex sampleTrade = 1
   \<and> [Scalar ''0x64'', Scalar ''0x0'',
       AddressList [''0x1f9840a85d5af5bf1d1762f925bdaddc4201f984'',
                    ''0x6b175474e89094c44da98b954eedeac495271d0f''],
       Scalar ''0x52908400098527886e0f7030069857d2e4169ee7'',
       Scalar ''0x6553f5b0'',
       Scalar ''0x1000000000000000000000000000000000000047''] ! 1 = Scalar ''0x0''"
proof -
  have i: "amountOutIndex sampleTrade = 1" by code_simp
  from swapCallParameters_min_out_zero[OF sample_call] sample_call i show ?thesis by simp
qed

text \<open>
  C7, as stated: with a time-to-live the deadline argument is the hex encoding of the
  clock's seconds plus the time-to-live. The source adds two doubles: for a time-to-live
  of \<open>2 ^ 53\<close> seconds at second 1700000001 the sum is rounded, and the argument is
  \<^verbatim>\<open>0x2000006553f100\<close>, not the encoding \<^verbatim>\<open>0x2000006553f101\<close> of the sum.
\<close>

theorem deadline_exact_sum_counterexample:
  "expiry hugeTtlOptions = Ttl 9007199254740992 \<and> isDouble 9007199254740992
   \<and> swapCallParameters sampleValidate draw1047 0 lateNow sampleTrade hugeTtlOptions
       callerEven =
     Some (Inr \<lparr>methodName = ''swapExactTokensForTokens'',
                args = [Scalar ''0x64'', Scalar ''0x0'',
                        AddressList [''0x1f9840a85d5af5bf1d1762f925bdaddc4201f984'',
                                     ''0x6b175474e89094c44da98b954eedeac495271d0f''],
                        Scalar ''0x52908400098527886e0f7030069857d2e4169ee7'',
                        Scalar ''0x2000006553f100'',
                        Scalar ''0x1000000000000000000000000000000000000047''],
                value = ''0x0''\<rparr>, 40)
   \<and> hexScalar (lateNow div 1000 + 9007199254740992) = ''0x2000006553f101''
   \<and> ''0x2000006553f100'' \<noteq> hexScalar (lateNow div 1000 + 9007199254740992)"
proof -
  have c: "swapCallParameters sampleValidate draw1047 0 lateNow sampleTrade hugeTtlOptions
       callerEven =
     Some (Inr \<lparr>methodName = ''swapExactTokensForTokens'',
                args = [Scalar ''0x64'', Scalar ''0x0'',
                        AddressList [''0x1f9840a85d5af5bf1d1762f925bdaddc4201f984'',
                                     ''0x6b175474e89094c44da98b954eedeac495271d0f''],
                        Scalar ''0x52908400098527886e0f7030069857d2e4169ee7'',
                        Scalar ''0x2000006553f100'',
                        Scalar ''0x1000000000000000000000000000000000000047''],
                value = ''0x0''\<rparr>, 40)"
    by code_simp
  have e: "expiry hugeTtlOptions = Ttl 9007199254740992" by code_simp
  have d: "isDouble 9007199254740992" by code_simp
  have h: "hexScalar (lateNow div 1000 + 9007199254740992) = ''0x2000006553f101''"
    by code_simp
  from e d h c show ?thesis by simp
qed

text \<open>
  C7, amended. Whenever \<open>swapCallParameters\<close> returns, and the clock's seconds plus the
  time-to-live are at most \<open>2 ^ 53\<close> in magnitude when the options carry one, the deadline
  argument (the one before the challenge key) is the hex scalar of that sum, and with an
  absolute deadline the hex scalar of the deadline (for a negative value, \<^verbatim>\<open>0x\<close>, a minus
  sign and the digits of the magnitude).
\<close>

theorem swapCallParameters_deadline:
  assumes "swapCallParameters validateAndParseAddress rnd pos now trade options caller =
             Some (Inr sp, pos')"
      and "case expiry options of Ttl ttl \<Rightarrow> \<bar>now div 1000 + ttl\<bar> \<le> 2 ^ 53 | Deadline d \<Rightarrow> True"
  shows "args sp ! (length (args sp) - 2) =
           Scalar
            (let v = (case expiry options of Ttl ttl \<Rightarrow> now div 1000 + ttl | Deadline d \<Rightarrow> d)
             in if 0 \<le> v then hexScalar v else ''0x'' @ toString16 v)"
proof -
  from swapCall_returns_inversion[OF assms(1)] obtain key to raw where f:
    "resolveChallenge rnd pos caller = Some (Inr key, pos')"
    "\<not> bothNative trade" "\<not> ttlNotPositive options" "\<not> exactOutWithFee trade options"
    "validateAndParseAddress (recipient options) = Inr to"
    "maximumAmountIn trade (allowedSlippage options) = Inr raw"
    by blast
  have enc: "(if 0 \<le> v then hexScalar v else ''0x'' @ toString16 v) = ''0x'' @ toString16 v"
    for v
    by (simp add: hexScalar_def toString16_def hexDigitsAcc_digits16)
  have exact: "jsAdd (now div 1000) ttl = now div 1000 + ttl" if "expiry options = Ttl ttl"
    for ttl
    using assms(2) that by (simp add: jsAdd_def roundToDouble_safe)
  from assms(1) f exact show ?thesis
    unfolding Let_def enc
    by (cases "expiry options"; cases "tradeType trade"; cases "inputIsETHER trade";
        cases "outputIsETHER trade"; cases "Boolean (feeOnTransfer options)")
      (auto simp: swapCall_unfold exactOutWithFee_def)
qed

theorem swapCallParameters_deadline_witness:
  "swapCallParameters sampleValidate draw1047 0 sampleNow sampleTrade sampleOptions callerEven =
     Some (Inr \<lparr>methodName = ''swapExactTokensForTokens'',
                args = [Scalar ''0x64'', Scalar ''0x0'',
                        AddressList [''0x1f9840a85d5af5bf1d1762f925bdaddc4201f984'',
                                     ''0x6b175474e89094c44da98b954eedeac495271d0f''],
                        Scalar ''0x52908400098527886e0f7030069857d2e4169ee7'',
                        Scalar ''0x6553f5b0'',
                        Scalar ''0x1000000000000000000000000000000000000047''],
                value = ''0x0''\<rparr>, 40)
   \<and> expiry sampleOptions = Ttl 1200
   \<and> \<bar>sampleNow div 1000 + 1200\<bar> \<le> 2 ^ 53
   \<and> hexScalar (sampleNow div 1000 + 1200) = ''0x6553f5b0''
   \<and> swapCallParameters sampleValidate draw1047 0 sampleNow sampleTrade deadlineZeroOptions
       callerEven =
     Some (Inr \<lparr>methodName = ''swapExactTokensForTokens'',
                args = [Scalar ''0x64'', Scalar ''0x0'',
                        AddressList [''0x1f9840a85d5af5bf1d1762f925bdaddc4201f984'',
                                     ''0x6b175474e89094c44da98b954eedeac495271d0f''],
                        Scalar ''0x52908400098527886e0f7030069857d2e4169ee7'',
                        Scalar ''0x0'',
                        Scalar ''0x1000000000000000000000000000000000000047''],
                value = ''0x0''\<rparr>, 40)
   \<and> expiry deadlineZeroOptions = Deadline 0
   \<and> hexScalar 0 = ''0x0''"
proof -
  have c: "swapCallParameters sampleValidate draw1047 0 sampleNow sampleTrade sampleOptions callerEven =
     Some (Inr \<lparr>methodName = ''swapExactTokensForTokens'',
                args = [Scalar ''0x64'', Scalar ''0x0'',
                        AddressList [''0x1f9840a85d5af5bf1d1762f925bdaddc4201f984'',
                                     ''0x6b175474e89094c44da98b954eedeac495271d0f''],
                        Scalar ''0x52908400098527886e0f7030069857d2e4169ee7'',
                        Scalar ''0x6553f5b0'',
                        Scalar ''0x1000000000000000000000000000000000000047''],
                value = ''0x0''\<rparr>, 40)"
    by code_simp
  have c0: "swapCallParameters sampleValidate draw1047 0 sampleNow sampleTrade deadlineZeroOptions
       callerEven =
     Some (Inr \<lparr>methodName = ''swapExactTokensForTokens'',
                args = [Scalar ''0x64'', Scalar ''0x0'',
                        AddressList [''0x1f9840a85d5af5bf1d1762f925bdaddc4201f984'',
                                     ''0x6b175474e89094c44da98b954eedeac495271d0f''],
                        Scalar ''0x52908400098527886e0f7030069857d2e4169ee7'',
                        Scalar ''0x0'',
                        Scalar ''0x1000000000000000000000000000000000000047''],
                value = ''0x0''\<rparr>, 40)"
    by code_simp
  have e: "expiry sampleOptions = Ttl 1200" by code_simp
  have b: "\<bar>sampleNow div 1000 + 1200\<bar> \<le> 2 ^ 53" by code_simp
  have e0: "expiry deadlineZeroOptions = Deadline 0" by code_simp
  have s: "case expiry sampleOptions of Ttl ttl \<Rightarrow> \<bar>sampleNow div 1000 + ttl\<bar> \<le> 2 ^ 53
           | Deadline d \<Rightarrow> True" using e b by simp
  have s0: "case expiry deadlineZeroOptions of Ttl ttl \<Rightarrow> \<bar>sampleNow div 1000 + ttl\<bar> \<le> 2 ^ 53
           | Deadline d \<Rightarrow> True" using e0 by simp
  have nn: "0 \<le> sampleNow div 1000 + 1200" by code_simp
  from swapCallParameters_deadline[OF c s] e nn
  have 1: "hexScalar (sampleNow div 1000 + 1200) = ''0x6553f5b0''" by simp
  from swapCallParameters_deadline[OF c0 s0] e0
  have 2: "hexScalar 0 = ''0x0''" by simp
  from c e b 1 c0 e0 2 show ?thesis by blast
qed

text \<open>
  C9. A call whose options leave \<^verbatim>\<open>feeOnTransfer\<close> out is the call with \<^verbatim>\<open>feeOnTransfer\<close>
  false: the two results are equal, and the method returned is the one of the table's
  row without fee support.
\<close>

theorem feeOnTransfer_absent_is_false:
  "swapCallParameters validateAndParseAddress rnd pos now trade
     (options\<lparr>feeOnTransfer := None\<rparr>) caller =
   swapCallParameters validateAndParseAddress rnd pos now trade
     (options\<lparr>feeOnTransfer := Some False\<rparr>) caller
   \<and> (\<forall>sp pos'.
         swapCallParameters validateAndParseAddress rnd pos now trade
           (options\<lparr>feeOnTransfer := None\<rparr>) caller = Some (Inr sp, pos') \<longrightarrow>
         (\<exists>slots native.
            decisionTable (tradeType trade) (inputIsETHER trade) (outputIsETHER trade) False =
              Some (methodName sp, slots, native)))"
proof (intro conjI allI impI)
  show "swapCallParameters validateAndParseAddress rnd pos now trade
          (options\<lparr>feeOnTransfer := None\<rparr>) caller =
        swapCallParameters validateAndParseAddress rnd pos now trade
          (options\<lparr>feeOnTransfer := Some False\<rparr>) caller"
  proof (cases "resolveChallenge rnd pos caller")
    case None
    then show ?thesis by (simp add: swapCall_diverges)
  next
    case (Some y)
    obtain r p where y: "y = (r, p)" by (cases y)
    show ?thesis
    proof (cases r)
      case (Inl e)
      with Some y show ?thesis by (simp add: swapCall_challenge_error)
    next
      case (Inr key)
      with Some y show ?thesis
        by (simp add: swapCallParameters_def Boolean_def Let_def split: sum.split)
    qed
  qed
next
  fix sp pos'
  assume "swapCallParameters validateAndParseAddress rnd pos now trade
            (options\<lparr>feeOnTransfer := None\<rparr>) caller = Some (Inr sp, pos')"
  from swapCall_returns_inversion[OF this] obtain key to raw where
    "tableCall (tradeType trade) (inputIsETHER trade) (outputIsETHER trade)
       (Boolean (feeOnTransfer (options\<lparr>feeOnTransfer := None\<rparr>))) (toHex raw)
       (map address (routePath trade)) to
       (deadlineArg now (expiry (options\<lparr>feeOnTransfer := None\<rparr>))) (toHexString key) = Some sp"
    by blast
  from tableCall_shape[OF this]
  show "\<exists>slots native.
          decisionTable (tradeType trade) (inputIsETHER trade) (outputIsETHER trade) False =
            Some (methodName sp, slots, native)"
    by (auto simp: Boolean_def)
qed

theorem feeOnTransfer_absent_is_false_witness:
  "sampleOptions\<lparr>feeOnTransfer := None\<rparr> = sampleOptions
   \<and> swapCallParameters sampleValidate draw1047 0 sampleNow sampleTrade
       (sampleOptions\<lparr>feeOnTransfer := Some False\<rparr>) callerEven =
     Some (Inr \<lparr>methodName = ''swapExactTokensForTokens'',
                args = [Scalar ''0x64'', Scalar ''0x0'',
                        AddressList [''0x1f9840a85d5af5bf1d1762f925bdaddc4201f984'',
                                     ''0x6b175474e89094c44da98b954eedeac495271d0f''],
                        Scalar ''0x52908400098527886e0f7030069857d2e4169ee7'',
                        Scalar ''0x6553f5b0'',
                        Scalar ''0x1000000000000000000000000000000000000047''],
                value = ''0x0''\<rparr>, 40)
   \<and> (\<exists>slots native.
         decisionTable (tradeType sampleTrade) (inputIsETHER sampleTrade)
           (outputIsETHER sampleTrade) False =
         Some (''swapExactTokensForTokens'', slots, native))"
proof -
  have same: "sampleOptions\<lparr>feeOnTransfer := None\<rparr> = sampleOptions"
    by (simp add: sampleOptions_def)
  note w = feeOnTransfer_absent_is_false
             [of sampleValidate draw1047 0 sampleNow sampleTrade sampleOptions callerEven]
  from w have eq: "swapCallParameters sampleValidate draw1047 0 sampleNow sampleTrade
       (sampleOptions\<lparr>feeOnTransfer := Some False\<rparr>) callerEven =
     swapCallParameters sampleValidate draw1047 0 sampleNow sampleTrade sampleOptions callerEven"
    by (simp add: same)
  from w sample_call have "\<exists>slots native.
         decisionTable (tradeType sampleTrade) (inputIsETHER sampleTrade)
           (outputIsETHER sampleTrade) False =
         Some (''swapExactTokensForTokens'', slots, native)"
    by (simp add: same)
  with eq sample_call same show ?thesis by simp
qed

text \<open>
  C10. With an absolute deadline the time-to-live invariant does not apply: for every
  deadline \<open>d\<close>, zero and negative values included, an otherwise valid call returns, and
  its deadline argument is \<^verbatim>\<open>0x\<close> and the hexadecimal digits of \<open>d\<close>, which for \<open>d\<close> from
  zero up is the hex scalar of the glossary.
\<close>

theorem absolute_deadline_unchecked:
  assumes "expiry options = Deadline d"
      and "resolveChallenge rnd pos caller = Some (Inr key, pos')"
      and "\<not> bothNative trade"
      and "validateAndParseAddress (recipient options) = Inr to"
      and "maximumAmountIn trade (allowedSlippage options) = Inr raw"
      and "\<not> exactOutWithFee trade options"
  shows "\<exists>sp. swapCallParameters validateAndParseAddress rnd pos now trade options caller =
                Some (Inr sp, pos')
              \<and> args sp ! (length (args sp) - 2) = Scalar (''0x'' @ toString16 d)
              \<and> (0 \<le> d \<longrightarrow> ''0x'' @ toString16 d = hexScalar d)"
proof -
  have nt: "\<not> ttlNotPositive options" using assms(1) by (simp add: ttlNotPositive_def)
  from swapCall_returns[where validateAndParseAddress = validateAndParseAddress,
         OF assms(2) assms(3) nt assms(4) assms(5) assms(6), of now]
  obtain sp where sp:
    "tableCall (tradeType trade) (inputIsETHER trade) (outputIsETHER trade)
       (Boolean (feeOnTransfer options)) (toHex raw) (map address (routePath trade))
       to (deadlineArg now (expiry options)) (toHexString key) = Some sp"
    "swapCallParameters validateAndParseAddress rnd pos now trade options caller =
       Some (Inr sp, pos')" by blast
  from tableCall_shape[OF sp(1)] obtain name slots native where t:
    "decisionTable (tradeType trade) (inputIsETHER trade) (outputIsETHER trade)
       (Boolean (feeOnTransfer options)) = Some (name, slots, native)"
    "args sp = map (encodeSlot (toHex raw) (map address (routePath trade)) to
                 (deadlineArg now (expiry options))) slots @ [Scalar (toHexString key)]"
    by blast
  have len: "0 < length slots" using decisionTable_rows(2)[OF t(1)] by (simp split: if_splits)
  have "slots ! (length slots - 1) = DeadlineArg" by (rule decisionTable_rows(3)[OF t(1)])
  with len have "args sp ! (length (args sp) - 2) = Scalar (deadlineArg now (expiry options))"
    by (simp add: t(2) nth_append)
  then have "args sp ! (length (args sp) - 2) = Scalar (''0x'' @ toString16 d)"
    using assms(1) by (simp add: deadlineArg_def)
  moreover have "0 \<le> d \<longrightarrow> ''0x'' @ toString16 d = hexScalar d"
    by (simp add: hexScalar_def toString16_def hexDigitsAcc_digits16)
  ultimately show ?thesis using sp(2) by blast
qed

theorem absolute_deadline_unchecked_witness:
  "expiry deadlineZeroOptions = Deadline 0
   \<and> resolveChallenge draw1047 0 callerEven = Some (Inr key1047, 40)
   \<and> \<not> bothNative sampleTrade
   \<and> sampleValidate (recipient deadlineZeroOptions) =
       Inr ''0x52908400098527886e0f7030069857d2e4169ee7''
   \<and> maximumAmountIn sampleTrade (allowedSlippage deadlineZeroOptions) = Inr 100
   \<and> \<not> exactOutWithFee sampleTrade deadlineZeroOptions
   \<and> (\<exists>sp. swapCallParameters sampleValidate draw1047 0 sampleNow sampleTrade
               deadlineZeroOptions callerEven = Some (Inr sp, 40)
            \<and> args sp ! (length (args sp) - 2) = Scalar ''0x0'')
   \<and> hexScalar 0 = ''0x0''
   \<and> swapCallParameters sampleValidate draw1047 0 sampleNow sampleTrade deadlineZeroOptions
       callerEven =
     Some (Inr \<lparr>methodName = ''swapExactTokensForTokens'',
                args = [Scalar ''0x64'', Scalar ''0x0'',
                        AddressList [''0x1f9840a85d5af5bf1d1762f925bdaddc4201f984'',
                                     ''0x6b175474e89094c44da98b954eedeac495271d0f''],
                        Scalar ''0x52908400098527886e0f7030069857d2e4169ee7'',
                        Scalar ''0x0'',
                        Scalar ''0x1000000000000000000000000000000000000047''],
                value = ''0x0''\<rparr>, 40)"
proof -
  have e: "expiry deadlineZeroOptions = Deadline 0" by code_simp
  have nb: "\<not> bothNative sampleTrade" by code_simp
  have r: "sampleValidate (recipient deadlineZeroOptions) =
             Inr ''0x52908400098527886e0f7030069857d2e4169ee7''" by code_simp
  have a: "maximumAmountIn sampleTrade (allowedSlippage deadlineZeroOptions) = Inr 100"
    by (simp add: sampleTrade_def)
  have nf: "\<not> exactOutWithFee sampleTrade deadlineZeroOptions" by code_simp
  have z: "''0x'' @ toString16 0 = ''0x0''" by code_simp
  have c0: "swapCallParameters sampleValidate draw1047 0 sampleNow sampleTrade deadlineZeroOptions
       callerEven =
     Some (Inr \<lparr>methodName = ''swapExactTokensForTokens'',
                args = [Scalar ''0x64'', Scalar ''0x0'',
                        AddressList [''0x1f9840a85d5af5bf1d1762f925bdaddc4201f984'',
                                     ''0x6b175474e89094c44da98b954eedeac495271d0f''],
                        Scalar ''0x52908400098527886e0f7030069857d2e4169ee7'',
                        Scalar ''0x0'',
                        Scalar ''0x1000000000000000000000000000000000000047''],
                value = ''0x0''\<rparr>, 40)"
    by code_simp
  from absolute_deadline_unchecked
         [where validateAndParseAddress = sampleValidate, OF e sample_challenge nb r a nf,
          of sampleNow]
  show ?thesis using e sample_challenge nb r a nf c0 unfolding z by auto
qed

text \<open>
  C5, as stated: a call that violates an invariant fails before the challenge is
  resolved, so that no randomness is consumed. The source resolves the challenge in its
  first statement: the both-native trade below fails with \<^verbatim>\<open>ETHER_IN_OUT\<close> after forty
  draws.
\<close>

theorem fails_before_challenge_counterexample:
  "bothNative bothNativeTrade
   \<and> swapCallParameters rejectAll draw1047 0 sampleNow bothNativeTrade sampleOptions callerEven =
       Some (Inl (InvariantFailed ''ETHER_IN_OUT''), 40)
   \<and> map_option snd
        (swapCallParameters rejectAll draw1047 0 sampleNow bothNativeTrade sampleOptions
           callerEven) \<noteq> Some 0"
proof -
  have "bothNative bothNativeTrade" by code_simp
  then show ?thesis by (simp add: both_native_call)
qed

text \<open>
  C5, amended. A call with both legs native or with a time-to-live that is zero or
  negative does what the challenge search does (it does not return when the search does
  not, and consumes the draws of the search) and then fails with \<^verbatim>\<open>ETHER_IN_OUT\<close> or
  \<^verbatim>\<open>TTL\<close>, whatever the recipient validator, the amount and the clock are. A call that
  fails with \<^verbatim>\<open>EXACT_OUT_FOT\<close> has resolved the challenge, validated the recipient and
  computed the maximum input before.
\<close>

theorem invariant_failures_after_challenge:
  "(bothNative trade \<or> ttlNotPositive options \<longrightarrow>
      swapCallParameters validateAndParseAddress rnd pos now trade options caller =
        (case resolveChallenge rnd pos caller of
           None \<Rightarrow> None
         | Some (Inl e, p) \<Rightarrow> Some (Inl e, p)
         | Some (Inr key, p) \<Rightarrow>
             Some (Inl (InvariantFailed
                          (if bothNative trade then ''ETHER_IN_OUT'' else ''TTL'')), p)))
   \<and> (failsWith (swapCallParameters validateAndParseAddress rnd pos now trade options caller)
         ''EXACT_OUT_FOT'' \<longrightarrow>
        (\<exists>key p. resolveChallenge rnd pos caller = Some (Inr key, p)
                \<and> swapCallParameters validateAndParseAddress rnd pos now trade options caller =
                    Some (Inl (InvariantFailed ''EXACT_OUT_FOT''), p))
        \<and> \<not> isl (validateAndParseAddress (recipient options))
        \<and> \<not> isl (maximumAmountIn trade (allowedSlippage options)))"
proof (intro conjI impI)
  let ?R = "swapCallParameters validateAndParseAddress rnd pos now trade options caller"
  assume bad: "bothNative trade \<or> ttlNotPositive options"
  show "?R =
        (case resolveChallenge rnd pos caller of
           None \<Rightarrow> None
         | Some (Inl e, p) \<Rightarrow> Some (Inl e, p)
         | Some (Inr key, p) \<Rightarrow>
             Some (Inl (InvariantFailed
                          (if bothNative trade then ''ETHER_IN_OUT'' else ''TTL'')), p))"
  proof (cases "resolveChallenge rnd pos caller")
    case None
    then show ?thesis by (simp add: swapCall_diverges)
  next
    case (Some y)
    obtain r p where y: "y = (r, p)" by (cases y)
    show ?thesis
    proof (cases r)
      case (Inl e)
      with Some y show ?thesis by (simp add: swapCall_challenge_error)
    next
      case (Inr key)
      with Some y have k: "resolveChallenge rnd pos caller = Some (Inr key, p)" by simp
      show ?thesis
      proof (cases "bothNative trade")
        case True
        from swapCall_ether_in_out[OF k True, of validateAndParseAddress now options] k True
        show ?thesis by simp
      next
        case False
        with bad have t: "ttlNotPositive options" by simp
        from swapCall_ttl[OF k False t, of validateAndParseAddress now] k False
        show ?thesis by simp
      qed
    qed
  qed
next
  let ?R = "swapCallParameters validateAndParseAddress rnd pos now trade options caller"
  assume f: "failsWith ?R ''EXACT_OUT_FOT''"
  have k: "\<exists>key p. resolveChallenge rnd pos caller = Some (Inr key, p)"
  proof (cases "resolveChallenge rnd pos caller")
    case None
    with f show ?thesis by (simp add: swapCall_diverges failsWith_def)
  next
    case (Some y)
    obtain r p where y: "y = (r, p)" by (cases y)
    show ?thesis
    proof (cases r)
      case (Inl e)
      with Some y have c: "resolveChallenge rnd pos caller = Some (Inl e, p)" by simp
      from resolveChallenge_error[OF c] f swapCall_challenge_error[OF c] show ?thesis
        by (simp add: failsWith_def)
    next
      case (Inr key)
      with Some y show ?thesis by simp
    qed
  qed
  then obtain key p where k: "resolveChallenge rnd pos caller = Some (Inr key, p)" by blast
  from swapCall_outcome(3)[OF k, of validateAndParseAddress now trade options] f
  have c: "\<not> bothNative trade" "\<not> ttlNotPositive options"
    "\<not> isl (validateAndParseAddress (recipient options))"
    "\<not> isl (maximumAmountIn trade (allowedSlippage options))"
    "exactOutWithFee trade options" by simp_all
  from c(3) obtain to where to: "validateAndParseAddress (recipient options) = Inr to"
    by (cases "validateAndParseAddress (recipient options)") auto
  from c(4) obtain raw where raw: "maximumAmountIn trade (allowedSlippage options) = Inr raw"
    by (cases "maximumAmountIn trade (allowedSlippage options)") auto
  from swapCall_exact_out_fot
         [where validateAndParseAddress = validateAndParseAddress, OF k c(1) c(2) to raw c(5),
          of now]
  have "?R = Some (Inl (InvariantFailed ''EXACT_OUT_FOT''), p)" .
  with k show "\<exists>key p. resolveChallenge rnd pos caller = Some (Inr key, p)
                \<and> ?R = Some (Inl (InvariantFailed ''EXACT_OUT_FOT''), p)" by blast
  from c(3) show "\<not> isl (validateAndParseAddress (recipient options))" .
  from c(4) show "\<not> isl (maximumAmountIn trade (allowedSlippage options))" .
qed

theorem invariant_failures_after_challenge_witness:
  "bothNative bothNativeTrade
   \<and> swapCallParameters rejectAll draw1047 0 sampleNow bothNativeTrade sampleOptions callerEven =
       Some (Inl (InvariantFailed ''ETHER_IN_OUT''), 40)
   \<and> failsWith (swapCallParameters sampleValidate draw1047 0 sampleNow exactOutFeeTrade
                  feeOptions callerEven) ''EXACT_OUT_FOT''
   \<and> \<not> isl (sampleValidate (recipient feeOptions))
   \<and> \<not> isl (maximumAmountIn exactOutFeeTrade (allowedSlippage feeOptions))"
proof -
  have b: "bothNative bothNativeTrade" by code_simp
  have f: "failsWith (swapCallParameters sampleValidate draw1047 0 sampleNow exactOutFeeTrade
                  feeOptions callerEven) ''EXACT_OUT_FOT''"
    by (simp add: exact_out_fee_call failsWith_def)
  from invariant_failures_after_challenge
         [of bothNativeTrade sampleOptions rejectAll draw1047 0 sampleNow callerEven] b
  have 1: "swapCallParameters rejectAll draw1047 0 sampleNow bothNativeTrade sampleOptions
             callerEven = Some (Inl (InvariantFailed ''ETHER_IN_OUT''), 40)"
    by (simp add: sample_challenge)
  from invariant_failures_after_challenge
         [of exactOutFeeTrade feeOptions sampleValidate draw1047 0 sampleNow callerEven] f
  have 2: "\<not> isl (sampleValidate (recipient feeOptions))
         \<and> \<not> isl (maximumAmountIn exactOutFeeTrade (allowedSlippage feeOptions))"
    by blast
  from b 1 f 2 show ?thesis by blast
qed

text \<open>
  C6, as stated: the call fails with \<^verbatim>\<open>TTL\<close> exactly when the time-to-live is zero or
  negative. The invariants are checked one after the other: a both-native trade with a
  time-to-live of zero fails with \<^verbatim>\<open>ETHER_IN_OUT\<close>, not with \<^verbatim>\<open>TTL\<close>.
\<close>

theorem ttl_reason_counterexample:
  "ttlNotPositive ttlZeroOptions
   \<and> \<not> failsWith (swapCallParameters sampleValidate draw1047 0 sampleNow bothNativeTrade
                    ttlZeroOptions callerEven) ''TTL''"
proof -
  have "ttlNotPositive ttlZeroOptions" by code_simp
  then show ?thesis by (simp add: both_native_ttl_zero_call failsWith_def)
qed

text \<open>
  C6, amended. Once the challenge search has returned a key, the call fails with
  \<^verbatim>\<open>ETHER_IN_OUT\<close> exactly when both legs are native; with \<^verbatim>\<open>TTL\<close> exactly when they are
  not and the time-to-live is zero or negative; with \<^verbatim>\<open>EXACT_OUT_FOT\<close> exactly when
  neither holds, the recipient is accepted, the maximum input is computed and the trade
  is exact-output with fee-on-transfer requested; and it returns a call exactly when none
  of the three holds and the recipient and the amount are accepted.
\<close>

theorem invariant_reasons_in_order:
  assumes "resolveChallenge rnd pos caller = Some (Inr key, pos')"
  shows "failsWith (swapCallParameters validateAndParseAddress rnd pos now trade options caller)
           ''ETHER_IN_OUT'' = bothNative trade
       \<and> failsWith (swapCallParameters validateAndParseAddress rnd pos now trade options caller)
           ''TTL'' = (\<not> bothNative trade \<and> ttlNotPositive options)
       \<and> failsWith (swapCallParameters validateAndParseAddress rnd pos now trade options caller)
           ''EXACT_OUT_FOT'' =
         (\<not> bothNative trade \<and> \<not> ttlNotPositive options
          \<and> \<not> isl (validateAndParseAddress (recipient options))
          \<and> \<not> isl (maximumAmountIn trade (allowedSlippage options))
          \<and> exactOutWithFee trade options)
       \<and> returnsCall (swapCallParameters validateAndParseAddress rnd pos now trade options caller) =
         (\<not> bothNative trade \<and> \<not> ttlNotPositive options
          \<and> \<not> isl (validateAndParseAddress (recipient options))
          \<and> \<not> isl (maximumAmountIn trade (allowedSlippage options))
          \<and> \<not> exactOutWithFee trade options)"
  using swapCall_outcome[OF assms] by blast

theorem invariant_reasons_in_order_witness:
  "resolveChallenge draw1047 0 callerEven = Some (Inr key1047, 40)
   \<and> bothNative bothNativeTrade \<and> ttlNotPositive ttlZeroOptions
   \<and> failsWith (swapCallParameters sampleValidate draw1047 0 sampleNow bothNativeTrade
                  ttlZeroOptions callerEven) ''ETHER_IN_OUT''
   \<and> \<not> failsWith (swapCallParameters sampleValidate draw1047 0 sampleNow bothNativeTrade
                    ttlZeroOptions callerEven) ''TTL''
   \<and> \<not> returnsCall (swapCallParameters sampleValidate draw1047 0 sampleNow bothNativeTrade
                      ttlZeroOptions callerEven)"
proof -
  have b: "bothNative bothNativeTrade" by code_simp
  have t: "ttlNotPositive ttlZeroOptions" by code_simp
  from invariant_reasons_in_order
         [OF sample_challenge, of sampleValidate sampleNow bothNativeTrade ttlZeroOptions]
  show ?thesis using sample_challenge b t by simp
qed

end
